theory Spec2Isabelle
  imports Complex_Main "HOL-Library.Word"
begin

section \<open>Confidence buckets (src/lib/utils.ts)\<close>

text \<open>
  A TypeScript \<open>number\<close> is an IEEE-754 double. A confidence is modelled by the real
  number that the (finite) double denotes; comparisons of doubles are exact, so
  \<open>confidence >= 0.8\<close> is the comparison of that real with the double that the literal
  \<open>0.8\<close> denotes. The three literals are not representable exactly; the constants below
  are the nearest doubles, which is what the engine compares with.
\<close>

definition lit_0_8 :: real where
  "lit_0_8 = 3602879701896397 / 4503599627370496"

definition lit_0_6 :: real where
  "lit_0_6 = 5404319552844595 / 9007199254740992"

definition lit_0_4 :: real where
  "lit_0_4 = 3602879701896397 / 9007199254740992"

definition getConfidenceColor :: "real \<Rightarrow> string" where
  "getConfidenceColor confidence =
     (if confidence \<ge> lit_0_8 then ''text-red-600''
      else if confidence \<ge> lit_0_6 then ''text-orange-600''
      else if confidence \<ge> lit_0_4 then ''text-yellow-600''
      else ''text-green-600'')"

definition getConfidenceBgColor :: "real \<Rightarrow> string" where
  "getConfidenceBgColor confidence =
     (if confidence \<ge> lit_0_8 then ''bg-red-50 border-red-200''
      else if confidence \<ge> lit_0_6 then ''bg-orange-50 border-orange-200''
      else if confidence \<ge> lit_0_4 then ''bg-yellow-50 border-yellow-200''
      else ''bg-green-50 border-green-200'')"

text \<open>The four buckets of the claim, in the order green < yellow < orange < red.\<close>

datatype bucket = Green | Yellow | Orange | Red

fun bucket_rank :: "bucket \<Rightarrow> nat" where
  "bucket_rank Green = 0"
| "bucket_rank Yellow = 1"
| "bucket_rank Orange = 2"
| "bucket_rank Red = 3"

text \<open>Reading a bucket back from the class string a function returned.\<close>

definition text_bucket :: "string \<Rightarrow> bucket option" where
  "text_bucket s =
     (if s = ''text-green-600'' then Some Green
      else if s = ''text-yellow-600'' then Some Yellow
      else if s = ''text-orange-600'' then Some Orange
      else if s = ''text-red-600'' then Some Red
      else None)"

definition bg_bucket :: "string \<Rightarrow> bucket option" where
  "bg_bucket s =
     (if s = ''bg-green-50 border-green-200'' then Some Green
      else if s = ''bg-yellow-50 border-yellow-200'' then Some Yellow
      else if s = ''bg-orange-50 border-orange-200'' then Some Orange
      else if s = ''bg-red-50 border-red-200'' then Some Red
      else None)"

text \<open>The bucket a confidence falls in, by the intervals the thresholds cut.\<close>

definition interval_bucket :: "real \<Rightarrow> bucket" where
  "interval_bucket c =
     (if c < lit_0_4 then Green
      else if c < lit_0_6 then Yellow
      else if c < lit_0_8 then Orange
      else Red)"


section \<open>JavaScript values, exceptions and the host environment\<close>

text \<open>
  Values that cross the HTTP boundary are untyped at run time (\<open>response.json()\<close> has
  type \<open>any\<close>), so they are modelled as JavaScript values. \<open>Undefined\<close> also stands
  for an absent optional field. An \<open>Obj\<close> lists the own properties of an object in
  enumeration order, one entry per key. Strings are lists of characters that the code
  only copies, compares and concatenates.
\<close>

datatype number = Finite real | NaN | PosInfinity | NegInfinity

datatype jsval = Undefined | Null | Bool bool | Num number | Str string
  | Arr "jsval list" | Obj "(string \<times> jsval) list"

fun truthy :: "jsval \<Rightarrow> bool" where
  "truthy Undefined = False"
| "truthy Null = False"
| "truthy (Bool b) = b"
| "truthy (Num (Finite r)) = (r \<noteq> 0)"
| "truthy (Num NaN) = False"
| "truthy (Num PosInfinity) = True"
| "truthy (Num NegInfinity) = True"
| "truthy (Str s) = (s \<noteq> [])"
| "truthy (Arr xs) = True"
| "truthy (Obj kvs) = True"

text \<open>The operator \<open>a || b\<close>.\<close>

definition js_or :: "jsval \<Rightarrow> jsval \<Rightarrow> jsval" where
  "js_or a b = (if truthy a then a else b)"

text \<open>
  A thrown value (or the reason of a rejected promise): an object for which
  \<open>instanceof Error\<close> holds, with its message, or anything else.
\<close>

datatype thrown = Error_value string | Other_value

text \<open>The expression \<open>error instanceof Error ? error.message : fallback\<close> of the catch blocks.\<close>

definition catch_message :: "string \<Rightarrow> thrown \<Rightarrow> string" where
  "catch_message fallback e = (case e of Error_value m \<Rightarrow> m | Other_value \<Rightarrow> fallback)"

text \<open>
  The message of the TypeError raised by reading a property of \<open>null\<close> or
  \<open>undefined\<close>; the wording is the engine's (here V8's).
\<close>

definition read_message :: "string \<Rightarrow> string \<Rightarrow> string" where
  "read_message what prop =
     ''Cannot read properties of '' @ what @ '' (reading '' @ [CHR 0x27] @ prop @ [CHR 0x27] @ '')''"

text \<open>
  The property read \<open>v.prop\<close>, for a property name that no prototype defines
  (\<open>detail\<close>, \<open>products\<close>).
\<close>

fun get_property :: "jsval \<Rightarrow> string \<Rightarrow> thrown + jsval" where
  "get_property Undefined prop = Inl (Error_value (read_message ''undefined'' prop))"
| "get_property Null prop = Inl (Error_value (read_message ''null'' prop))"
| "get_property (Obj kvs) prop = Inr (case map_of kvs prop of Some v \<Rightarrow> v | None \<Rightarrow> Undefined)"
| "get_property v prop = Inr Undefined"

text \<open>
  The conversion of a value to a string (ToString), as \<open>new Error(v)\<close> applies it:
  \<open>numstr\<close> is the host's rendering of a finite number. An array is the join of its
  elements with commas, where null and undefined elements give the empty string; an
  object gives \<open>[object Object]\<close>, unless it has an own property \<open>toString\<close>, which
  for a parsed JSON value is not callable, and the conversion then throws a TypeError.
\<close>

fun join_comma :: "string list \<Rightarrow> string" where
  "join_comma [] = []"
| "join_comma [s] = s"
| "join_comma (s # t # rest) = s @ '','' @ join_comma (t # rest)"

text \<open>The results of a list of steps, up to the first that throws.\<close>

fun all_or_throw :: "(thrown + 'a) list \<Rightarrow> thrown + 'a list" where
  "all_or_throw [] = Inr []"
| "all_or_throw (Inl err # rs) = Inl err"
| "all_or_throw (Inr x # rs) =
     (case all_or_throw rs of Inl err \<Rightarrow> Inl err | Inr xs \<Rightarrow> Inr (x # xs))"

fun js_ToString :: "(real \<Rightarrow> string) \<Rightarrow> jsval \<Rightarrow> thrown + string" where
  "js_ToString numstr Undefined = Inr ''undefined''"
| "js_ToString numstr Null = Inr ''null''"
| "js_ToString numstr (Bool b) = Inr (if b then ''true'' else ''false'')"
| "js_ToString numstr (Num (Finite r)) = Inr (numstr r)"
| "js_ToString numstr (Num NaN) = Inr ''NaN''"
| "js_ToString numstr (Num PosInfinity) = Inr ''Infinity''"
| "js_ToString numstr (Num NegInfinity) = Inr ''-Infinity''"
| "js_ToString numstr (Str s) = Inr s"
| "js_ToString numstr (Arr xs) =
     (case all_or_throw
             (map (\<lambda>x. case x of
                          Undefined \<Rightarrow> Inr []
                        | Null \<Rightarrow> Inr []
                        | _ \<Rightarrow> js_ToString numstr x) xs) of
        Inl err \<Rightarrow> Inl err
      | Inr parts \<Rightarrow> Inr (join_comma parts))"
| "js_ToString numstr (Obj kvs) =
     (case map_of kvs ''toString'' of
        None \<Rightarrow> Inr ''[object Object]''
      | Some v \<Rightarrow> Inl (Error_value ''Cannot convert object to primitive value''))"

text \<open>Decimal rendering of an integer in a template literal (\<open>${response.status}\<close>).\<close>

definition digit :: "nat \<Rightarrow> char" where
  "digit d = ''0123456789'' ! d"

fun decimal :: "nat \<Rightarrow> string" where
  "decimal n = (if 10 \<le> n then decimal (n div 10) @ [digit (n mod 10)] else [digit n])"

declare decimal.simps [simp del]

text \<open>JavaScript strings as lists of UTF-16 code units, where the code reads the units.\<close>

type_synonym ustring = "nat list"

definition ascii :: "string \<Rightarrow> ustring" where
  "ascii s = map of_char s"

record js_file =
  file_bits :: "8 word list"
  file_name :: ustring
  file_type :: ustring

record js_blob =
  blob_bits :: "8 word list"
  blob_type :: ustring

text \<open>An entry value of a FormData: a File, or a Blob with the file name given to append.\<close>

datatype form_value = File_part js_file | Blob_part js_blob string

record request =
  url :: string
  http_method :: string
  body :: "(string \<times> form_value) list option"

text \<open>
  A Response: its status line and what awaiting \<open>response.json()\<close> gives (the parsed
  body, or the rejection). The getter \<open>ok\<close> is true for the statuses 200 to 299, as the
  Fetch standard defines it.
\<close>

record response =
  status :: nat
  statusText :: string
  json_result :: "thrown + jsval"

definition ok :: "response \<Rightarrow> bool" where
  "ok r = (200 \<le> status r \<and> status r \<le> 299)"

text \<open>
  The host: the configured API URL, the network (what \<open>fetch\<close> settles to for a request),
  and the built-ins the sources call (\<open>atob\<close>, the rendering of a finite number as
  a string, the operator \<open>+\<close>).
\<close>

record env =
  NEXT_PUBLIC_API_URL :: "string option"
  fetch :: "request \<Rightarrow> thrown + response"
  atob :: "ustring \<Rightarrow> thrown + ustring"
  number_to_string :: "real \<Rightarrow> string"
  js_plus :: "jsval \<Rightarrow> jsval \<Rightarrow> jsval"

text \<open>Network I/O is made observable by a log of the requests sent, in order.\<close>

definition do_fetch ::
    "env \<Rightarrow> request \<Rightarrow> request list \<Rightarrow> (thrown + response) \<times> request list" where
  "do_fetch e req sent = (fetch e req, sent @ [req])"


section \<open>The REST client (DetectionApi)\<close>

text \<open>
  ApiResponse: the object literals of the client set \<open>success\<close> and one of \<open>data\<close> and
  \<open>error\<close>; the other is absent. The optional \<open>message\<close> of the interface is never set.
  The interface declares \<open>error\<close> a string; the value stored is whatever the expression
  yields at run time.
\<close>

record api_response =
  success :: bool
  data :: jsval
  error :: jsval

definition API_BASE_URL :: "env \<Rightarrow> string" where
  "API_BASE_URL e =
     (case NEXT_PUBLIC_API_URL e of
        None \<Rightarrow> ''http://localhost:8000''
      | Some u \<Rightarrow> if u = [] then ''http://localhost:8000'' else u)"

text \<open>The template literal \<open>`HTTP ${response.status}: ${response.statusText}`\<close>.\<close>

definition http_status_message :: "response \<Rightarrow> string" where
  "http_status_message response =
     ''HTTP '' @ decimal (status response) @ '': '' @ statusText response"

text \<open>The body of the try block of handleResponse: \<open>Inl\<close> is a throw inside it.\<close>

definition handleResponse_try :: "response \<Rightarrow> thrown + api_response" where
  "handleResponse_try response =
     (if \<not> ok response then
        (case json_result response of
           Inl e \<Rightarrow> Inl e
         | Inr errorData \<Rightarrow>
             (case get_property errorData ''detail'' of
                Inl e \<Rightarrow> Inl e
              | Inr detail \<Rightarrow>
                  Inr \<lparr>success = False, data = Undefined,
                       error = js_or detail (Str (http_status_message response))\<rparr>))
      else
        (case json_result response of
           Inl e \<Rightarrow> Inl e
         | Inr d \<Rightarrow> Inr \<lparr>success = True, data = d, error = Undefined\<rparr>))"

definition handleResponse :: "response \<Rightarrow> thrown + api_response" where
  "handleResponse response =
     (case handleResponse_try response of
        Inr r \<Rightarrow> Inr r
      | Inl e \<Rightarrow>
          Inr \<lparr>success = False, data = Undefined,
               error = Str (catch_message ''Unknown error occurred'' e)\<rparr>)"

text \<open>
  The public methods. Each builds its request, awaits \<open>fetch\<close> inside a try block whose
  catch turns a rejection into a result, and returns the promise of handleResponse.
  A method returns its outcome (\<open>Inl\<close>: the returned promise rejects) and the log.
\<close>

definition network_failure :: "thrown \<Rightarrow> api_response" where
  "network_failure e =
     \<lparr>success = False, data = Undefined, error = Str (catch_message ''Network error'' e)\<rparr>"

definition analyzeImage ::
    "env \<Rightarrow> js_file \<Rightarrow> request list \<Rightarrow> (thrown + api_response) \<times> request list" where
  "analyzeImage e imageFile sent =
     (let formData = [(''image'', File_part imageFile)];
          (outcome, sent') =
            do_fetch e \<lparr>url = API_BASE_URL e @ ''/analyze'', http_method = ''POST'',
                         body = Some formData\<rparr> sent
      in (case outcome of
            Inl err \<Rightarrow> (Inr (network_failure err), sent')
          | Inr response \<Rightarrow> (handleResponse response, sent')))"

definition analyzeImageFromBlob ::
    "env \<Rightarrow> js_blob \<Rightarrow> request list \<Rightarrow> (thrown + api_response) \<times> request list" where
  "analyzeImageFromBlob e imageBlob sent =
     (let formData = [(''image'', Blob_part imageBlob ''capture.jpg'')];
          (outcome, sent') =
            do_fetch e \<lparr>url = API_BASE_URL e @ ''/analyze'', http_method = ''POST'',
                         body = Some formData\<rparr> sent
      in (case outcome of
            Inl err \<Rightarrow> (Inr (network_failure err), sent')
          | Inr response \<Rightarrow> (handleResponse response, sent')))"

text \<open>The forEach loop of analyzeBatch: one append per file, in the order of the array.\<close>

fun append_images ::
    "(string \<times> form_value) list \<Rightarrow> js_file list \<Rightarrow> (string \<times> form_value) list" where
  "append_images formData [] = formData"
| "append_images formData (f # fs) = append_images (formData @ [(''images'', File_part f)]) fs"

definition analyzeBatch ::
    "env \<Rightarrow> js_file list \<Rightarrow> request list \<Rightarrow> (thrown + api_response) \<times> request list" where
  "analyzeBatch e imageFiles sent =
     (let formData = append_images [] imageFiles;
          (outcome, sent') =
            do_fetch e \<lparr>url = API_BASE_URL e @ ''/analyze/batch'', http_method = ''POST'',
                         body = Some formData\<rparr> sent
      in (case outcome of
            Inl err \<Rightarrow> (Inr (network_failure err), sent')
          | Inr response \<Rightarrow> (handleResponse response, sent')))"

definition getModelInfo ::
    "env \<Rightarrow> request list \<Rightarrow> (thrown + api_response) \<times> request list" where
  "getModelInfo e sent =
     (let (outcome, sent') =
            do_fetch e \<lparr>url = API_BASE_URL e @ ''/model/info'', http_method = ''GET'',
                         body = None\<rparr> sent
      in (case outcome of
            Inl err \<Rightarrow> (Inr (network_failure err), sent')
          | Inr response \<Rightarrow> (handleResponse response, sent')))"

definition getBrandsDatabase ::
    "env \<Rightarrow> request list \<Rightarrow> (thrown + api_response) \<times> request list" where
  "getBrandsDatabase e sent =
     (let (outcome, sent') =
            do_fetch e \<lparr>url = API_BASE_URL e @ ''/brands/database'', http_method = ''GET'',
                         body = None\<rparr> sent
      in (case outcome of
            Inl err \<Rightarrow> (Inr (network_failure err), sent')
          | Inr response \<Rightarrow> (handleResponse response, sent')))"

definition healthCheck ::
    "env \<Rightarrow> request list \<Rightarrow> (thrown + api_response) \<times> request list" where
  "healthCheck e sent =
     (let (outcome, sent') =
            do_fetch e \<lparr>url = API_BASE_URL e @ ''/health'', http_method = ''GET'',
                         body = None\<rparr> sent
      in (case outcome of
            Inl err \<Rightarrow> (Inr (network_failure err), sent')
          | Inr response \<Rightarrow> (handleResponse response, sent')))"



section \<open>dataURLtoFile (src/lib/utils.ts)\<close>

text \<open>\<open>s.split(sep)\<close> for a separator of one code unit: never empty.\<close>

fun split_on :: "'a \<Rightarrow> 'a list \<Rightarrow> 'a list list" where
  "split_on sep [] = [[]]"
| "split_on sep (c # cs) =
     (if c = sep then [] # split_on sep cs
      else (case split_on sep cs of [] \<Rightarrow> [[c]] | p # ps \<Rightarrow> (c # p) # ps))"

text \<open>
  The regular expression \<open>/:(.*?);/\<close>. Without the flag \<open>s\<close>, the dot matches every
  code unit but the four line terminators. Code units: 58 is the colon, 59 the semicolon,
  44 the comma.
\<close>

definition line_terminator :: "nat \<Rightarrow> bool" where
  "line_terminator c = (c = 10 \<or> c = 13 \<or> c = 8232 \<or> c = 8233)"

text \<open>\<open>(.*?);\<close> from a fixed position: the shortest run of dot-matched units before a semicolon.\<close>

fun lazy_until_semicolon :: "ustring \<Rightarrow> ustring option" where
  "lazy_until_semicolon [] = None"
| "lazy_until_semicolon (c # cs) =
     (if c = 59 then Some []
      else if line_terminator c then None
      else map_option ((#) c) (lazy_until_semicolon cs))"

text \<open>\<open>s.match(/:(.*?);/)\<close>: group 1 of the leftmost match, \<open>None\<close> for \<open>null\<close>.\<close>

fun match_mime :: "ustring \<Rightarrow> ustring option" where
  "match_mime [] = None"
| "match_mime (c # cs) =
     (if c = 58 then
        (case lazy_until_semicolon cs of Some g \<Rightarrow> Some g | None \<Rightarrow> match_mime cs)
      else match_mime cs)"

text \<open>
  The loop \<open>while(n--){ u8arr[n] = bstr.charCodeAt(n) }\<close>; a store into a Uint8Array
  keeps the value modulo 256.
\<close>

fun fill_bytes :: "nat \<Rightarrow> ustring \<Rightarrow> 8 word list \<Rightarrow> 8 word list" where
  "fill_bytes 0 bstr u8arr = u8arr"
| "fill_bytes (Suc n) bstr u8arr = fill_bytes n bstr (u8arr[n := of_nat (bstr ! n)])"

text \<open>
  The \<open>type\<close> of a File made by \<open>new File(bits, name, {type: t})\<close>, as the File API
  defines it: the empty string if \<open>t\<close> has a code unit outside U+0020 to U+007E,
  otherwise \<open>t\<close> in ASCII lower case.
\<close>

definition ascii_lowercase :: "nat \<Rightarrow> nat" where
  "ascii_lowercase c = (if 65 \<le> c \<and> c \<le> 90 then c + 32 else c)"

definition File_type :: "ustring \<Rightarrow> ustring" where
  "File_type t =
     (if list_all (\<lambda>c. 32 \<le> c \<and> c \<le> 126) t then map ascii_lowercase t else [])"

text \<open>
  \<open>arr[1]\<close> is undefined when the string has no comma, and \<open>atob\<close> then receives the
  string \<open>undefined\<close>. The File has the bytes and the name handed to its constructor,
  and the type that the constructor makes of the \<open>type\<close> option.
\<close>

definition dataURLtoFile :: "env \<Rightarrow> ustring \<Rightarrow> ustring \<Rightarrow> thrown + js_file" where
  "dataURLtoFile e dataurl filename =
     (let arr = split_on 44 dataurl in
      case arr of
        [] \<Rightarrow> Inl (Error_value (read_message ''undefined'' ''match''))
      | header # rest \<Rightarrow>
          (case match_mime header of
             None \<Rightarrow> Inl (Error_value (read_message ''null'' ''1''))
           | Some mime \<Rightarrow>
               (case atob e (case rest of [] \<Rightarrow> ascii ''undefined'' | payload # _ \<Rightarrow> payload) of
                  Inl err \<Rightarrow> Inl err
                | Inr bstr \<Rightarrow>
                    (let n = length bstr;
                         u8arr = fill_bytes n bstr (replicate n 0)
                     in Inr \<lparr>file_bits = u8arr, file_name = filename,
                             file_type = File_type mime\<rparr>))))"


section \<open>The dashboard (detectProduct)\<close>

text \<open>
  The React state of the Dashboard component. The field \<open>dashboardError\<close> is the state
  \<open>error\<close> (string or null); \<open>detectionResult\<close> is null initially.
\<close>

record dashboard =
  isDetecting :: bool
  detectionResult :: jsval
  dashboardError :: "string option"
  capturedImage :: "ustring option"
  isWebcamActive :: bool
  detectionHistory :: "jsval list"

text \<open>The updater \<open>(prev) => [data, ...prev.slice(0, 9)]\<close>.\<close>

definition history_updater :: "'a \<Rightarrow> 'a list \<Rightarrow> 'a list" where
  "history_updater d prev = d # take 9 prev"

text \<open>
  What \<open>throw new Error(v)\<close> throws: the Error whose message is \<open>v\<close> converted to a
  string (the empty message for undefined), or the TypeError of a conversion that fails.
\<close>

definition new_Error :: "env \<Rightarrow> jsval \<Rightarrow> thrown" where
  "new_Error e v =
     (case v of
        Undefined \<Rightarrow> Error_value []
      | _ \<Rightarrow>
          (case js_ToString (number_to_string e) v of
             Inl err \<Rightarrow> err
           | Inr s \<Rightarrow> Error_value s))"

text \<open>
  The try block of detectProduct, from the state after the first two setters: the
  exception thrown, if any, the state and the log.
\<close>

definition detectProduct_try ::
    "env \<Rightarrow> ustring \<Rightarrow> dashboard \<Rightarrow> request list \<Rightarrow> thrown option \<times> dashboard \<times> request list" where
  "detectProduct_try e imageData st sent =
     (case dataURLtoFile e imageData (ascii ''capture.jpg'') of
        Inl err \<Rightarrow> (Some err, st, sent)
      | Inr imageFile \<Rightarrow>
          (case analyzeImage e imageFile sent of
             (Inl err, sent') \<Rightarrow> (Some err, st, sent')
           | (Inr result, sent') \<Rightarrow>
               if \<not> success result then
                 (Some (new_Error e (js_or (error result) (Str ''Gagal melakukan deteksi produk''))),
                  st, sent')
               else
                 (let d = data result
                  in (None,
                      st\<lparr>detectionResult := d,
                         detectionHistory := history_updater d (detectionHistory st)\<rparr>,
                      sent'))))"

definition detectProduct ::
    "env \<Rightarrow> ustring \<Rightarrow> dashboard \<times> request list \<Rightarrow> dashboard \<times> request list" where
  "detectProduct e imageData = (\<lambda>(st, sent).
     (let st1 = st\<lparr>isDetecting := True, dashboardError := None\<rparr>;
          (thrown, st2, sent') = detectProduct_try e imageData st1 sent;
          st3 = (case thrown of
                   None \<Rightarrow> st2
                 | Some err \<Rightarrow>
                     st2\<lparr>dashboardError :=
                           Some (catch_message ''Terjadi kesalahan saat deteksi'' err)\<rparr>)
      in (st3\<lparr>isDetecting := False\<rparr>, sent')))"


section \<open>System status polling (src/components/SystemStatus.tsx)\<close>

record status_state =
  modelInfo :: jsval
  healthStatus :: jsval
  brandsCount :: jsval
  isLoading :: bool
  statusError :: "string option"

definition initial_status :: status_state where
  "initial_status =
     \<lparr>modelInfo = Null, healthStatus = Null, brandsCount = Num (Finite 0), isLoading = True,
      statusError = None\<rparr>"

text \<open>\<open>Object.values(v)\<close>.\<close>

fun object_values :: "jsval \<Rightarrow> thrown + jsval list" where
  "object_values Undefined = Inl (Error_value ''Cannot convert undefined or null to object'')"
| "object_values Null = Inl (Error_value ''Cannot convert undefined or null to object'')"
| "object_values (Obj kvs) = Inr (map snd kvs)"
| "object_values (Arr xs) = Inr xs"
| "object_values (Str s) = Inr (map (\<lambda>c. Str [c]) s)"
| "object_values v = Inr []"

text \<open>The property read \<open>v.length\<close>.\<close>

fun get_length :: "jsval \<Rightarrow> thrown + jsval" where
  "get_length Undefined = Inl (Error_value (read_message ''undefined'' ''length''))"
| "get_length Null = Inl (Error_value (read_message ''null'' ''length''))"
| "get_length (Arr xs) = Inr (Num (Finite (real (length xs))))"
| "get_length (Str s) = Inr (Num (Finite (real (length s))))"
| "get_length (Obj kvs) = Inr (case map_of kvs ''length'' of Some v \<Rightarrow> v | None \<Rightarrow> Undefined)"
| "get_length v = Inr Undefined"

text \<open>The call \<open>reduce((sum, brand) => sum + brand.products.length, 0)\<close>; \<open>acc\<close> is \<open>sum\<close>.\<close>

fun reduce_products :: "env \<Rightarrow> jsval \<Rightarrow> jsval list \<Rightarrow> thrown + jsval" where
  "reduce_products e acc [] = Inr acc"
| "reduce_products e acc (brand # rest) =
     (case get_property brand ''products'' of
        Inl err \<Rightarrow> Inl err
      | Inr products \<Rightarrow>
          (case get_length products of
             Inl err \<Rightarrow> Inl err
           | Inr n \<Rightarrow> reduce_products e (js_plus e acc n) rest))"

text \<open>
  The try block of fetchSystemStatus. The three calls are started in the order of the
  array; \<open>Promise.all\<close> rejects when one of them does.
\<close>

definition fetchSystemStatus_try ::
    "env \<Rightarrow> status_state \<Rightarrow> request list \<Rightarrow> thrown option \<times> status_state \<times> request list" where
  "fetchSystemStatus_try e st sent =
     (let (health, sent1) = healthCheck e sent;
          (model, sent2) = getModelInfo e sent1;
          (brands, sent3) = getBrandsDatabase e sent2
      in case health of
           Inl err \<Rightarrow> (Some err, st, sent3)
         | Inr healthResponse \<Rightarrow>
        (case model of
           Inl err \<Rightarrow> (Some err, st, sent3)
         | Inr modelResponse \<Rightarrow>
        (case brands of
           Inl err \<Rightarrow> (Some err, st, sent3)
         | Inr brandsResponse \<Rightarrow>
             (let st1 = (if success healthResponse
                         then st\<lparr>healthStatus := data healthResponse\<rparr> else st);
                  st2 = (if success modelResponse
                         then st1\<lparr>modelInfo := data modelResponse\<rparr> else st1)
              in if success brandsResponse then
                   (case object_values (data brandsResponse) of
                      Inl err \<Rightarrow> (Some err, st2, sent3)
                    | Inr brands \<Rightarrow>
                        (case reduce_products e (Num (Finite 0)) brands of
                           Inl err \<Rightarrow> (Some err, st2, sent3)
                         | Inr totalProducts \<Rightarrow>
                             (None, st2\<lparr>brandsCount := totalProducts\<rparr>, sent3)))
                 else (None, st2, sent3)))))"

definition fetchSystemStatus ::
    "env \<Rightarrow> status_state \<times> request list \<Rightarrow> status_state \<times> request list" where
  "fetchSystemStatus e = (\<lambda>(st, sent).
     (let st1 = st\<lparr>isLoading := True, statusError := None\<rparr>;
          (thrown, st2, sent') = fetchSystemStatus_try e st1 sent;
          st3 = (case thrown of
                   None \<Rightarrow> st2
                 | Some err \<Rightarrow> st2\<lparr>statusError := Some ''Gagal memuat status sistem''\<rparr>)
      in (st3\<lparr>isLoading := False\<rparr>, sent')))"

text \<open>
  Which of the three return statements of the component renders: the spinner, the error
  panel with the message, or the status panel.
\<close>

datatype status_view = Loading_view | Error_view string | Status_view

definition SystemStatus_view :: "status_state \<Rightarrow> status_view" where
  "SystemStatus_view st =
     (if isLoading st then Loading_view
      else (case statusError st of
              None \<Rightarrow> Status_view
            | Some m \<Rightarrow> if m = [] then Status_view else Error_view m))"




section \<open>The typed result and its views (src/lib/types.ts, src/components)\<close>

text \<open>The interface DetectionResult, as the components are typed against it.\<close>

record DetectedFeatures =
  barcode_729 :: bool
  made_in_israel_text :: bool
  hebrew_text :: bool
  israeli_brand :: bool
  kosher_certification :: bool

datatype RiskLevel = High | Medium | Low

record BrandInfo =
  name :: string
  category :: string
  risk_level :: RiskLevel

record DetectionResult =
  is_israeli_product :: bool
  confidence :: real
  detected_features :: DetectedFeatures
  brand_info :: "BrandInfo option"
  timestamp :: string
  processing_time_ms :: "real option"

text \<open>
  What a component renders: a tree of elements with their attributes, and text. A piece
  of text is a string of the sources or of the data, or a value that the host formats
  (number formatting and the locale are the engine's): \<open>(x * 100).toFixed(1)\<close>,
  \<open>x * 100\<close> as a CSS width, \<open>x.toFixed(0)\<close>, the two date formats.
\<close>

datatype content =
    Text string
  | Percent_fixed1 number
  | Percent_width number
  | Fixed0 real
  | Local_date_time string
  | Local_time string

datatype vnode =
    Element string "(string \<times> content list) list" "vnode list"
  | Txt "content list"

text \<open>An element that has only a class, and an icon of lucide-react.\<close>

definition el :: "string \<Rightarrow> string \<Rightarrow> vnode list \<Rightarrow> vnode" where
  "el tag className children = Element tag [(''className'', [Text className])] children"

definition icon :: "string \<Rightarrow> string \<Rightarrow> vnode" where
  "icon component className = el component className []"

text \<open>\<open>formatConfidence\<close>, \<open>formatTimestamp\<close> and \<open>getRiskLevelColor\<close> of utils.ts.\<close>

definition formatConfidence :: "real \<Rightarrow> content list" where
  "formatConfidence c = [Percent_fixed1 (Finite c), Text ''%'']"

definition formatTimestamp :: "string \<Rightarrow> content list" where
  "formatTimestamp t = [Local_date_time t]"

fun getRiskLevelColor :: "RiskLevel \<Rightarrow> string" where
  "getRiskLevelColor High = ''bg-red-100 text-red-800 border-red-200''"
| "getRiskLevelColor Medium = ''bg-orange-100 text-orange-800 border-orange-200''"
| "getRiskLevelColor Low = ''bg-green-100 text-green-800 border-green-200''"

text \<open>The value of a risk level, and \<open>toUpperCase\<close> of it.\<close>

fun risk_level_upper :: "RiskLevel \<Rightarrow> string" where
  "risk_level_upper High = ''HIGH''"
| "risk_level_upper Medium = ''MEDIUM''"
| "risk_level_upper Low = ''LOW''"

text \<open>\<open>s.replace(/_/g, ' ')\<close>.\<close>

definition underscores_to_spaces :: "string \<Rightarrow> string" where
  "underscores_to_spaces s = map (\<lambda>c. if c = CHR ''_'' then CHR '' '' else c) s"

text \<open>
  \<open>s.replace(/\b\w/g, l => l.toUpperCase())\<close>: the first character of every run of word
  characters is put in upper case. \<open>inside\<close> tells that the previous character was a word
  character.
\<close>

definition word_char :: "char \<Rightarrow> bool" where
  "word_char c =
     (c \<in> set ''abcdefghijklmnopqrstuvwxyzABCDEFGHIJKLMNOPQRSTUVWXYZ0123456789_'')"

definition upper_char :: "char \<Rightarrow> char" where
  "upper_char c =
     (case map_of (zip ''abcdefghijklmnopqrstuvwxyz'' ''ABCDEFGHIJKLMNOPQRSTUVWXYZ'') c of
        Some u \<Rightarrow> u
      | None \<Rightarrow> c)"

fun capitalize_words :: "bool \<Rightarrow> string \<Rightarrow> string" where
  "capitalize_words inside [] = []"
| "capitalize_words inside (c # cs) =
     (if word_char c then (if inside then c else upper_char c) # capitalize_words True cs
      else c # capitalize_words False cs)"

definition feature_label :: "string \<Rightarrow> string" where
  "feature_label key = capitalize_words False (underscores_to_spaces key)"

text \<open>\<open>Object.entries(result.detected_features)\<close>, in the order of the interface.\<close>

definition feature_entries :: "DetectedFeatures \<Rightarrow> (string \<times> bool) list" where
  "feature_entries f =
     [(''barcode_729'', barcode_729 f), (''made_in_israel_text'', made_in_israel_text f),
      (''hebrew_text'', hebrew_text f), (''israeli_brand'', israeli_brand f),
      (''kosher_certification'', kosher_certification f)]"

subsection \<open>DetectionResultCard\<close>

definition feature_row :: "string \<times> bool \<Rightarrow> vnode" where
  "feature_row = (\<lambda>(key, v).
     el ''div'' ''flex items-center justify-between py-1''
       [el ''span'' ''text-sm text-gray-600 capitalize'' [Txt [Text (feature_label key)]],
        el ''div'' ''flex items-center space-x-2''
          (if v then
             [icon ''CheckCircle'' ''h-4 w-4 text-red-500'',
              el ''span'' ''text-sm font-medium text-red-600'' [Txt [Text ''Terdeteksi'']]]
           else
             [icon ''XCircle'' ''h-4 w-4 text-gray-400'',
              el ''span'' ''text-sm text-gray-500'' [Txt [Text ''Tidak Ada'']]])])"

text \<open>The block that \<open>{result.brand_info && (...)}\<close> guards.\<close>

definition brand_block :: "BrandInfo \<Rightarrow> vnode" where
  "brand_block b =
     el ''div'' ''mb-4 p-3 bg-gray-50 rounded-lg''
       [el ''h4'' ''font-medium text-gray-900 mb-2 flex items-center''
          [icon ''Info'' ''h-4 w-4 mr-2'', Txt [Text ''Informasi Brand'']],
        el ''div'' ''space-y-2 text-sm''
          [el ''div'' ''flex justify-between''
             [el ''span'' ''text-gray-600'' [Txt [Text ''Nama:'']],
              el ''span'' ''font-medium'' [Txt [Text (name b)]]],
           el ''div'' ''flex justify-between''
             [el ''span'' ''text-gray-600'' [Txt [Text ''Kategori:'']],
              el ''span'' ''font-medium capitalize''
                [Txt [Text (underscores_to_spaces (category b))]]],
           el ''div'' ''flex justify-between items-center''
             [el ''span'' ''text-gray-600'' [Txt [Text ''Risk Level:'']],
              el ''span''
                (''px-2 py-1 rounded-full text-xs font-medium border '' @
                 getRiskLevelColor (risk_level b))
                [Txt [Text (risk_level_upper (risk_level b))]]]]]"

text \<open>
  The component; \<open>onDownload\<close> tells whether the optional handler was passed. A number
  that is 0 is rendered by \<open>{n && ...}\<close> as the text 0.
\<close>

definition DetectionResultCard :: "DetectionResult \<Rightarrow> bool \<Rightarrow> vnode" where
  "DetectionResultCard result onDownload =
     (let isIsraeliProduct = is_israeli_product result;
          confidenceColor = getConfidenceColor (confidence result)
      in
      el ''div'' ''bg-white rounded-2xl shadow-lg border border-gray-100 overflow-hidden''
        [el ''div''
           (''p-4 '' @ (if isIsraeliProduct then ''bg-red-50 border-b border-red-100''
                        else ''bg-green-50 border-b border-green-100''))
           [el ''div'' ''flex items-center justify-between''
              ([el ''div'' ''flex items-center space-x-3''
                  [if isIsraeliProduct then icon ''XCircle'' ''h-6 w-6 text-red-600''
                   else icon ''CheckCircle'' ''h-6 w-6 text-green-600'',
                   Element ''div'' []
                     [el ''h3''
                        (''font-semibold '' @
                         (if isIsraeliProduct then ''text-red-800'' else ''text-green-800''))
                        [Txt [Text (if isIsraeliProduct then ''Produk Terafiliasi Israel''
                                    else ''Produk Aman'')]],
                      el ''p''
                        (''text-sm '' @
                         (if isIsraeliProduct then ''text-red-600'' else ''text-green-600''))
                        [Txt [Text ''Confidence: ''],
                         Txt (formatConfidence (confidence result))]]]] @
               (if onDownload then
                  [Element ''button''
                     [(''onClick'', []),
                      (''className'',
                       [Text ''p-2 text-gray-500 hover:text-gray-700 hover:bg-gray-100 rounded-lg transition-colors''])]
                     [icon ''Download'' ''h-4 w-4'']]
                else []))],
         el ''div'' ''p-4''
           ([el ''div'' ''mb-4''
               [el ''div'' ''flex justify-between items-center mb-2''
                  [el ''span'' ''text-sm font-medium text-gray-700''
                     [Txt [Text ''Tingkat Keyakinan'']],
                   el ''span'' (''text-sm font-semibold '' @ confidenceColor)
                     [Txt (formatConfidence (confidence result))]],
                el ''div'' ''w-full bg-gray-200 rounded-full h-2''
                  [Element ''div''
                     [(''className'',
                       [Text (''h-2 rounded-full transition-all duration-500 '' @
                              (if confidence result \<ge> lit_0_8 then ''bg-red-500''
                               else if confidence result \<ge> lit_0_6 then ''bg-orange-500''
                               else if confidence result \<ge> lit_0_4 then ''bg-yellow-500''
                               else ''bg-green-500''))]),
                      (''style.width'', [Percent_width (Finite (confidence result)), Text ''%''])]
                     []]],
             el ''div'' ''mb-4''
               [el ''h4'' ''font-medium text-gray-900 mb-3'' [Txt [Text ''Fitur yang Terdeteksi'']],
                el ''div'' ''space-y-2''
                  (map feature_row (feature_entries (detected_features result)))]] @
            (case brand_info result of None \<Rightarrow> [] | Some b \<Rightarrow> [brand_block b]) @
            [el ''div'' ''text-xs text-gray-500 border-t pt-3''
               [el ''div'' ''flex justify-between items-center''
                  ([Element ''span'' []
                      [Txt [Text ''Waktu Deteksi: ''], Txt (formatTimestamp (timestamp result))]] @
                   (case processing_time_ms result of
                      None \<Rightarrow> []
                    | Some t \<Rightarrow>
                        if t = 0 then [Txt [Text ''0'']]
                        else [Element ''span'' []
                                [Txt [Text ''Waktu Proses: ''], Txt [Fixed0 t],
                                 Txt [Text ''ms'']]]))]])])"

text \<open>All the text of a rendered tree, in document order.\<close>

fun texts :: "vnode \<Rightarrow> content list" where
  "texts (Txt cs) = cs"
| "texts (Element tag attrs children) = concat (map texts children)"


subsection \<open>DetectionHistory\<close>





text \<open>Decimal rendering of a number that is an integer.\<close>

definition decimal_int :: "int \<Rightarrow> string" where
  "decimal_int i = (if 0 \<le> i then decimal (nat i) else CHR ''-'' # decimal (nat (- i)))"







section \<open>Notions used in the statements\<close>

text \<open>The \<open>detail\<close> field of a parsed error body that is not null.\<close>

definition detail_of :: "jsval \<Rightarrow> jsval" where
  "detail_of v =
     (case v of
        Obj kvs \<Rightarrow> (case map_of kvs ''detail'' of Some d \<Rightarrow> d | None \<Rightarrow> Undefined)
      | _ \<Rightarrow> Undefined)"

text \<open>What each method of the client makes of the settled \<open>fetch\<close>.\<close>

definition settle :: "thrown + response \<Rightarrow> thrown + api_response" where
  "settle outcome =
     (case outcome of
        Inl err \<Rightarrow> Inr (network_failure err)
      | Inr response \<Rightarrow> handleResponse response)"

text \<open>
  A failed exchange: the network error, the status that is not 2xx, the body that does
  not parse.
\<close>

definition is_failure :: "thrown + response \<Rightarrow> bool" where
  "is_failure outcome =
     (case outcome of
        Inl err \<Rightarrow> True
      | Inr r \<Rightarrow> (if ok r then (case json_result r of Inl err \<Rightarrow> True | Inr v \<Rightarrow> False)
                 else True))"

text \<open>The requests of the six methods.\<close>

definition analyze_request :: "env \<Rightarrow> form_value \<Rightarrow> request" where
  "analyze_request e part =
     \<lparr>url = API_BASE_URL e @ ''/analyze'', http_method = ''POST'',
      body = Some [(''image'', part)]\<rparr>"

definition batch_request :: "env \<Rightarrow> js_file list \<Rightarrow> request" where
  "batch_request e imageFiles =
     \<lparr>url = API_BASE_URL e @ ''/analyze/batch'', http_method = ''POST'',
      body = Some (map (\<lambda>f. (''images'', File_part f)) imageFiles)\<rparr>"

definition get_request :: "env \<Rightarrow> string \<Rightarrow> request" where
  "get_request e path = \<lparr>url = API_BASE_URL e @ path, http_method = ''GET'', body = None\<rparr>"

text \<open>
  The header of a data URL is the part before the first comma. It has a match of
  \<open>/:(.*?);/\<close> when it holds a colon, then a run of code units that the dot matches,
  then a semicolon.
\<close>

definition header_of :: "ustring \<Rightarrow> ustring" where
  "header_of dataurl = takeWhile (\<lambda>c. c \<noteq> 44) dataurl"

definition has_mime_header :: "ustring \<Rightarrow> bool" where
  "has_mime_header h =
     (\<exists>pre m post. h = pre @ 58 # m @ 59 # post \<and> list_all (\<lambda>c. \<not> line_terminator c) m)"

text \<open>The banner of the dashboard, \<open>{error && (...)}\<close>: the text shown, if any.\<close>

definition error_banner :: "dashboard \<Rightarrow> string option" where
  "error_banner st =
     (case dashboardError st of
        None \<Rightarrow> None
      | Some m \<Rightarrow> if m = [] then None else Some m)"

text \<open>
  Modelled from the spec: the batch endpoint of the detection service, which is not among
  the sources. The spec says of it: multiple images in, ordered array of results out,
  the order corresponding to the submission order. \<open>detect\<close> is the verdict of the
  service for one image; the images it receives are the File entries named \<open>images\<close>,
  in the order of the multipart body.
\<close>

fun submitted_images :: "(string \<times> form_value) list \<Rightarrow> js_file list" where
  "submitted_images [] = []"
| "submitted_images ((field, File_part f) # rest) =
     (if field = ''images'' then f # submitted_images rest else submitted_images rest)"
| "submitted_images ((field, Blob_part b n) # rest) = submitted_images rest"

text \<open>
  Modelled from the spec: the answer of the batch endpoint, status 200 with the object
  whose \<open>results\<close> are the verdicts of the submitted images, in their order.
\<close>

definition batch_service :: "(js_file \<Rightarrow> jsval) \<Rightarrow> request \<Rightarrow> thrown + response" where
  "batch_service detect req =
     Inr \<lparr>status = 200, statusText = ''OK'',
          json_result =
            Inr (Obj [(''results'',
                       Arr (map detect (case body req of
                                          None \<Rightarrow> []
                                        | Some formData \<Rightarrow> submitted_images formData)))])\<rparr>"

text \<open>The text that \<open>{result.processing_time_ms && (...)}\<close> contributes to the card.\<close>

definition processing_texts :: "real option \<Rightarrow> content list" where
  "processing_texts p =
     (case p of
        None \<Rightarrow> []
      | Some t \<Rightarrow> if t = 0 then [Text ''0''] else [Text ''Waktu Proses: '', Fixed0 t, Text ''ms''])"


section \<open>Example inputs\<close>

text \<open>
  Concrete hosts for the instances below. \<open>stub_atob\<close> is \<open>atob\<close> at the one payload
  used (the base64 text of the two bytes 72, 105); the numbers rendered are integers.
\<close>

definition stub_atob :: "ustring \<Rightarrow> thrown + ustring" where
  "stub_atob s =
     (if s = ascii ''SGk='' then Inr [72, 105]
      else Inl (Error_value ''The string to be decoded is not correctly encoded.''))"

definition sample_image :: ustring where
  "sample_image = ascii ''data:image/jpeg;base64,SGk=''"

definition sample_file :: js_file where
  "sample_file =
     \<lparr>file_bits = [72, 105], file_name = ascii ''capture.jpg'', file_type = ascii ''image/jpeg''\<rparr>"

definition sample_detection :: jsval where
  "sample_detection =
     Obj [(''is_israeli_product'', Bool True), (''confidence'', Num (Finite 0.9)),
          (''detected_features'',
             Obj [(''barcode_729'', Bool True), (''made_in_israel_text'', Bool False),
                  (''hebrew_text'', Bool True), (''israeli_brand'', Bool False),
                  (''kosher_certification'', Bool False)]),
          (''timestamp'', Str ''2024-05-01T10:00:00'')]"

definition host :: "(request \<Rightarrow> thrown + response) \<Rightarrow> env" where
  "host network =
     \<lparr>NEXT_PUBLIC_API_URL = None, fetch = network, atob = stub_atob,
      number_to_string = (\<lambda>r. decimal_int \<lfloor>r\<rfloor>), js_plus = (\<lambda>a b. Num NaN)\<rparr>"

definition online_env :: env where
  "online_env =
     host (\<lambda>req. Inr \<lparr>status = 200, statusText = ''OK'', json_result = Inr sample_detection\<rparr>)"

definition offline_env :: env where
  "offline_env = host (\<lambda>req. Inl (Error_value ''Failed to fetch''))"

definition unavailable_env :: env where
  "unavailable_env =
     host (\<lambda>req. Inr \<lparr>status = 503, statusText = ''Service Unavailable'',
                       json_result = Inr (Obj [(''detail'', Str ''Model belum siap'')])\<rparr>)"

definition validation_env :: env where
  "validation_env =
     host (\<lambda>req. Inr \<lparr>status = 422, statusText = ''Unprocessable Entity'',
                       json_result =
                         Inr (Obj [(''detail'',
                                    Arr [Obj [(''loc'', Arr [Str ''body'', Str ''images'']),
                                              (''msg'', Str ''field required''),
                                              (''type'', Str ''value_error.missing'')]])])\<rparr>)"

definition empty_detail_env :: env where
  "empty_detail_env =
     host (\<lambda>req. Inr \<lparr>status = 400, statusText = ''Bad Request'',
                       json_result = Inr (Obj [(''detail'', Arr [])])\<rparr>)"

definition sample_dashboard :: dashboard where
  "sample_dashboard =
     \<lparr>isDetecting = False, detectionResult = Str ''r10'', dashboardError = None,
      capturedImage = None, isWebcamActive = True,
      detectionHistory = [Str ''r10'', Str ''r9'', Str ''r8'', Str ''r7'', Str ''r6'',
                          Str ''r5'', Str ''r4'', Str ''r3'', Str ''r2'', Str ''r1'']\<rparr>"

definition sample_features :: DetectedFeatures where
  "sample_features =
     \<lparr>barcode_729 = True, made_in_israel_text = False, hebrew_text = True,
      israeli_brand = False, kosher_certification = False\<rparr>"

definition plain_result :: DetectionResult where
  "plain_result =
     \<lparr>is_israeli_product = True, confidence = 0.9, detected_features = sample_features,
      brand_info = None, timestamp = ''2024-05-01T10:00:00'', processing_time_ms = Some 12\<rparr>"

definition branded_result :: DetectionResult where
  "branded_result =
     \<lparr>is_israeli_product = False, confidence = 0.3, detected_features = sample_features,
      brand_info = Some \<lparr>name = ''Contoh'', category = ''personal_care'', risk_level = High\<rparr>,
      timestamp = ''2024-05-01T10:01:00'', processing_time_ms = None\<rparr>"


section \<open>Properties\<close>

subsection \<open>Confidence buckets\<close>

lemma literals_close:
  "\<bar>lit_0_8 - 8 / 10\<bar> < 1 / 2 ^ 53" "\<bar>lit_0_6 - 6 / 10\<bar> < 1 / 2 ^ 53"
  "\<bar>lit_0_4 - 4 / 10\<bar> < 1 / 2 ^ 53"
  by (simp_all add: lit_0_8_def lit_0_6_def lit_0_4_def)

lemma literals_ordered: "0 < lit_0_4" "lit_0_4 < lit_0_6" "lit_0_6 < lit_0_8" "lit_0_8 < 1"
  by (simp_all add: lit_0_8_def lit_0_6_def lit_0_4_def)

lemma text_bucket_color: "text_bucket (getConfidenceColor c) = Some (interval_bucket c)"
  using literals_ordered
  by (simp add: getConfidenceColor_def text_bucket_def interval_bucket_def)

lemma bg_bucket_color: "bg_bucket (getConfidenceBgColor c) = Some (interval_bucket c)"
  using literals_ordered
  by (simp add: getConfidenceBgColor_def bg_bucket_def interval_bucket_def)

lemma interval_bucket_mono:
  "c1 \<le> c2 \<Longrightarrow> bucket_rank (interval_bucket c1) \<le> bucket_rank (interval_bucket c2)"
  by (simp add: interval_bucket_def)

text \<open>
  Claim C2. For every confidence in the closed interval from 0 to 1, both
  getConfidenceColor and getConfidenceBgColor return the class string of one of the four
  buckets (the same bucket for both), so the branches at 0.4, 0.6 and 0.8 leave no gap;
  and the bucketing is monotonic: if c1 is at most c2, the bucket of c2 is greater than
  or equal to the bucket of c1 in the order green < yellow < orange < red.
\<close>

theorem confidence_buckets_total_and_monotonic:
  assumes "0 \<le> c1" and "c1 \<le> c2" and "c2 \<le> 1"
  shows "\<exists>b1 b2.
           text_bucket (getConfidenceColor c1) = Some b1 \<and>
           bg_bucket (getConfidenceBgColor c1) = Some b1 \<and>
           text_bucket (getConfidenceColor c2) = Some b2 \<and>
           bg_bucket (getConfidenceBgColor c2) = Some b2 \<and>
           bucket_rank b1 \<le> bucket_rank b2"
  using assms(2) by (simp add: text_bucket_color bg_bucket_color interval_bucket_mono)

theorem confidence_buckets_witness:
  "(0::real) \<le> 0.5 \<and> (0.5::real) \<le> 0.9 \<and> (0.9::real) \<le> 1 \<and>
   (\<exists>b1 b2.
      text_bucket (getConfidenceColor 0.5) = Some b1 \<and>
      bg_bucket (getConfidenceBgColor 0.5) = Some b1 \<and>
      text_bucket (getConfidenceColor 0.9) = Some b2 \<and>
      bg_bucket (getConfidenceBgColor 0.9) = Some b2 \<and>
      bucket_rank b1 \<le> bucket_rank b2)"
  using confidence_buckets_total_and_monotonic [of "0.5" "0.9"] by simp


subsection \<open>The REST client\<close>

lemma decimal_nonempty: "decimal n \<noteq> []"
  by (subst decimal.simps) simp

lemma http_status_message_nonempty: "http_status_message r \<noteq> []"
  by (simp add: http_status_message_def)

lemma get_property_detail:
  "v \<noteq> Null \<Longrightarrow> v \<noteq> Undefined \<Longrightarrow> get_property v ''detail'' = Inr (detail_of v)"
  by (cases v) (simp_all add: detail_of_def)

lemma handleResponse_total: "\<exists>res. handleResponse r = Inr res"
  by (simp add: handleResponse_def split: sum.splits)

lemma settle_total: "\<exists>res. settle outcome = Inr res"
  using handleResponse_total by (simp add: settle_def split: sum.splits)

lemma append_images_eq:
  "append_images formData fs = formData @ map (\<lambda>f. (''images'', File_part f)) fs"
  by (induction fs arbitrary: formData) simp_all

lemma analyzeImage_settle:
  "analyzeImage e f sent =
     (settle (fetch e (analyze_request e (File_part f))), sent @ [analyze_request e (File_part f)])"
  by (simp add: analyzeImage_def do_fetch_def settle_def analyze_request_def split: sum.splits)

lemma analyzeImageFromBlob_settle:
  "analyzeImageFromBlob e b sent =
     (settle (fetch e (analyze_request e (Blob_part b ''capture.jpg''))),
      sent @ [analyze_request e (Blob_part b ''capture.jpg'')])"
  by (simp add: analyzeImageFromBlob_def do_fetch_def settle_def analyze_request_def
      split: sum.splits)

lemma analyzeBatch_settle:
  "analyzeBatch e fs sent =
     (settle (fetch e (batch_request e fs)), sent @ [batch_request e fs])"
  by (simp add: analyzeBatch_def do_fetch_def settle_def append_images_eq batch_request_def
      split: sum.splits)

lemma getModelInfo_settle:
  "getModelInfo e sent =
     (settle (fetch e (get_request e ''/model/info'')), sent @ [get_request e ''/model/info''])"
  by (simp add: getModelInfo_def do_fetch_def settle_def get_request_def split: sum.splits)

lemma getBrandsDatabase_settle:
  "getBrandsDatabase e sent =
     (settle (fetch e (get_request e ''/brands/database'')),
      sent @ [get_request e ''/brands/database''])"
  by (simp add: getBrandsDatabase_def do_fetch_def settle_def get_request_def split: sum.splits)

lemma healthCheck_settle:
  "healthCheck e sent =
     (settle (fetch e (get_request e ''/health'')), sent @ [get_request e ''/health''])"
  by (simp add: healthCheck_def do_fetch_def settle_def get_request_def split: sum.splits)

text \<open>
  Claim C3, as amended. For every response whose status is not 2xx, handleResponse
  returns a result with success = false. When the body parses to a JSON value other than
  null, the error is the \<open>detail\<close> field if that is a non-empty string, it is the message
  built from the status code and the status text if \<open>detail\<close> is absent or falsy, and
  it is truthy in every case. When reading the body throws, the error is the message of
  the thrown error (\<open>Unknown error occurred\<close> if the thrown value is not an Error).
\<close>

theorem handleResponse_non_2xx:
  assumes "\<not> ok r"
  shows "\<exists>res. handleResponse r = Inr res \<and> \<not> success res \<and>
           (\<forall>v. json_result r = Inr v \<and> v \<noteq> Null \<and> v \<noteq> Undefined \<longrightarrow>
                (\<forall>s. detail_of v = Str s \<and> s \<noteq> [] \<longrightarrow> error res = Str s) \<and>
                (\<not> truthy (detail_of v) \<longrightarrow> error res = Str (http_status_message r)) \<and>
                truthy (error res)) \<and>
           (\<forall>err. json_result r = Inl err \<longrightarrow>
                error res = Str (catch_message ''Unknown error occurred'' err))"
  using assms
  by (auto simp add: handleResponse_def handleResponse_try_def get_property_detail js_or_def
      http_status_message_nonempty split: sum.splits)

theorem handleResponse_non_2xx_witness:
  "\<not> ok \<lparr>status = 503, statusText = ''Service Unavailable'',
          json_result = Inr (Obj [(''detail'', Str ''Model belum siap'')])\<rparr> \<and>
   (\<exists>res. handleResponse \<lparr>status = 503, statusText = ''Service Unavailable'',
                json_result = Inr (Obj [(''detail'', Str ''Model belum siap'')])\<rparr> = Inr res \<and>
          \<not> success res \<and> error res = Str ''Model belum siap'') \<and>
   \<not> ok \<lparr>status = 404, statusText = ''Not Found'', json_result = Inr (Obj [])\<rparr> \<and>
   (\<exists>res. handleResponse \<lparr>status = 404, statusText = ''Not Found'',
                json_result = Inr (Obj [])\<rparr> = Inr res \<and>
          \<not> success res \<and> error res = Str ''HTTP 404: Not Found'')"
proof -
  have 1: "\<not> ok \<lparr>status = 503, statusText = ''Service Unavailable'',
          json_result = Inr (Obj [(''detail'', Str ''Model belum siap'')])\<rparr>"
    by (simp add: ok_def)
  have 2: "\<not> ok \<lparr>status = 404, statusText = ''Not Found'', json_result = Inr (Obj [])\<rparr>"
    by (simp add: ok_def)
  have 3: "http_status_message \<lparr>status = 404, statusText = ''Not Found'',
      json_result = Inr (Obj [])\<rparr> = ''HTTP 404: Not Found''"
    by (simp add: http_status_message_def decimal.simps digit_def)
  show ?thesis
    using 1 2 3 handleResponse_non_2xx [OF 1] handleResponse_non_2xx [OF 2]
    by (auto simp add: detail_of_def)
qed

text \<open>
  Claim C3 as stated fails: a 500 response with a plain-text body has no \<open>detail\<close>, yet
  the error is the message of the parse error, not the message built from the status.
\<close>

theorem handleResponse_unparsable_body_counterexample:
  "\<not> ok \<lparr>status = 500, statusText = ''Internal Server Error'',
          json_result = Inl (Error_value ''Unexpected token I in JSON at position 0'')\<rparr> \<and>
   handleResponse \<lparr>status = 500, statusText = ''Internal Server Error'',
          json_result = Inl (Error_value ''Unexpected token I in JSON at position 0'')\<rparr>
     = Inr \<lparr>success = False, data = Undefined,
            error = Str ''Unexpected token I in JSON at position 0''\<rparr> \<and>
   Str ''Unexpected token I in JSON at position 0'' \<noteq>
     Str (http_status_message \<lparr>status = 500, statusText = ''Internal Server Error'',
          json_result = Inl (Error_value ''Unexpected token I in JSON at position 0'')\<rparr>)"
  by (simp add: ok_def handleResponse_def handleResponse_try_def catch_message_def
      http_status_message_def decimal.simps digit_def)

text \<open>The batch service of the spec answers the request of analyzeBatch in order.\<close>

lemma submitted_images_map:
  "submitted_images (map (\<lambda>f. (''images'', File_part f)) fs) = fs"
  by (induction fs) simp_all

lemma settle_batch_service:
  "settle (batch_service detect (batch_request e fs)) =
     Inr \<lparr>success = True, data = Obj [(''results'', Arr (map detect fs))], error = Undefined\<rparr>"
  by (simp add: settle_def batch_service_def batch_request_def submitted_images_map
      handleResponse_def handleResponse_try_def ok_def)

text \<open>
  Claim C7. For every list of image files, analyzeBatch sends one multipart request whose
  entries are the files in the order given (each under the name \<open>images\<close>), and when the
  service answers as the spec requires, the result carries the array of the verdicts of
  the files in the submission order.
\<close>

theorem analyzeBatch_preserves_order:
  "snd (analyzeBatch e imageFiles sent) =
     sent @ [\<lparr>url = API_BASE_URL e @ ''/analyze/batch'', http_method = ''POST'',
              body = Some (map (\<lambda>f. (''images'', File_part f)) imageFiles)\<rparr>] \<and>
   (fetch e = batch_service detect \<longrightarrow>
      fst (analyzeBatch e imageFiles sent) =
        Inr \<lparr>success = True, data = Obj [(''results'', Arr (map detect imageFiles))],
             error = Undefined\<rparr>)"
  using settle_batch_service [of detect e imageFiles]
  by (auto simp add: analyzeBatch_settle batch_request_def)

theorem analyzeBatch_order_witness:
  "snd (analyzeBatch (host (batch_service (\<lambda>f. Num (Finite (real (length (file_name f)))))))
          [sample_file\<lparr>file_name := ascii ''a.jpg''\<rparr>, sample_file\<lparr>file_name := ascii ''bb.jpg''\<rparr>] []) =
     [\<lparr>url = ''http://localhost:8000/analyze/batch'', http_method = ''POST'',
       body = Some [(''images'', File_part (sample_file\<lparr>file_name := ascii ''a.jpg''\<rparr>)),
                    (''images'', File_part (sample_file\<lparr>file_name := ascii ''bb.jpg''\<rparr>))]\<rparr>] \<and>
   fetch (host (batch_service (\<lambda>f. Num (Finite (real (length (file_name f))))))) =
     batch_service (\<lambda>f. Num (Finite (real (length (file_name f))))) \<and>
   fst (analyzeBatch (host (batch_service (\<lambda>f. Num (Finite (real (length (file_name f)))))))
          [sample_file\<lparr>file_name := ascii ''a.jpg''\<rparr>, sample_file\<lparr>file_name := ascii ''bb.jpg''\<rparr>] []) =
     Inr \<lparr>success = True,
          data = Obj [(''results'', Arr [Num (Finite 5), Num (Finite 6)])],
          error = Undefined\<rparr>"
proof -
  have 1: "fetch (host (batch_service (\<lambda>f. Num (Finite (real (length (file_name f))))))) =
     batch_service (\<lambda>f. Num (Finite (real (length (file_name f)))))"
    by (simp add: host_def)
  have 2: "API_BASE_URL (host (batch_service (\<lambda>f. Num (Finite (real (length (file_name f))))))) =
     ''http://localhost:8000''"
    by (simp add: host_def API_BASE_URL_def)
  show ?thesis
    using 1 2
      analyzeBatch_preserves_order [of "host (batch_service (\<lambda>f. Num (Finite (real (length (file_name f))))))"
        "[sample_file\<lparr>file_name := ascii ''a.jpg''\<rparr>, sample_file\<lparr>file_name := ascii ''bb.jpg''\<rparr>]"
        "[]" "\<lambda>f. Num (Finite (real (length (file_name f))))"]
    by (simp add: ascii_def)
qed

text \<open>
  Every method resolves: the promise it returns never rejects. A failed exchange gives
  success = false and a defined error, which is a string unless the error body carries a
  truthy \<open>detail\<close> that is not a string.
\<close>

lemma api_methods_total:
  "\<exists>res. fst (analyzeImage e f sent) = Inr res"
  "\<exists>res. fst (analyzeImageFromBlob e b sent) = Inr res"
  "\<exists>res. fst (analyzeBatch e fs sent) = Inr res"
  "\<exists>res. fst (getModelInfo e sent) = Inr res"
  "\<exists>res. fst (getBrandsDatabase e sent) = Inr res"
  "\<exists>res. fst (healthCheck e sent) = Inr res"
  by (simp_all add: analyzeImage_settle analyzeImageFromBlob_settle analyzeBatch_settle
      getModelInfo_settle getBrandsDatabase_settle healthCheck_settle settle_total)

lemma settle_failure:
  "is_failure outcome \<Longrightarrow> settle outcome = Inr res \<Longrightarrow>
   \<not> success res \<and> data res = Undefined \<and> error res \<noteq> Undefined"
  by (auto simp add: settle_def is_failure_def network_failure_def handleResponse_def
      handleResponse_try_def js_or_def split: sum.splits if_splits)

lemma settle_error_string:
  assumes "is_failure outcome" and "settle outcome = Inr res"
    and "\<And>r v. outcome = Inr r \<Longrightarrow> json_result r = Inr v \<Longrightarrow>
           \<not> truthy (detail_of v) \<or> (\<exists>s. detail_of v = Str s)"
  shows "\<exists>s. error res = Str s"
proof (cases outcome)
  case (Inl err)
  then show ?thesis using assms(2) by (auto simp add: settle_def network_failure_def)
next
  case (Inr r)
  show ?thesis
  proof (cases "json_result r")
    case (Inl err)
    then show ?thesis
      using assms(2) Inr
      by (auto simp add: settle_def handleResponse_def handleResponse_try_def
          split: if_splits)
  next
    case jr: (Inr v)
    have nok: "\<not> ok r" using assms(1) Inr jr by (simp add: is_failure_def split: if_splits)
    show ?thesis
    proof (cases "v = Null \<or> v = Undefined")
      case True
      then show ?thesis
        using assms(2) Inr jr nok
        by (auto simp add: settle_def handleResponse_def handleResponse_try_def)
    next
      case False
      then have "get_property v ''detail'' = Inr (detail_of v)"
        by (simp add: get_property_detail)
      then show ?thesis
        using assms(2) assms(3) [OF Inr jr] Inr jr nok
        by (auto simp add: settle_def handleResponse_def handleResponse_try_def js_or_def)
    qed
  qed
qed

text \<open>
  Claim C8 fails on the code at a validation error of the service: the \<open>detail\<close> of a
  422 response is an array, and the method returns it as the error of the result
  (success = false), where the claim and the interface ApiResponse say a string. Here
  analyzeBatch is called with no file, so that the request has no part \<open>images\<close>.
\<close>

theorem analyzeBatch_validation_error_not_string:
  "analyzeBatch validation_env [] [] =
     (Inr \<lparr>success = False, data = Undefined,
           error = Arr [Obj [(''loc'', Arr [Str ''body'', Str ''images'']),
                             (''msg'', Str ''field required''),
                             (''type'', Str ''value_error.missing'')]]\<rparr>,
      [\<lparr>url = ''http://localhost:8000/analyze/batch'', http_method = ''POST'',
        body = Some []\<rparr>])"
  by (simp add: analyzeBatch_settle settle_def validation_env_def host_def handleResponse_def
      handleResponse_try_def ok_def js_or_def batch_request_def API_BASE_URL_def)


subsection \<open>dataURLtoFile\<close>

lemma split_on_nonempty: "split_on sep s \<noteq> []"
  by (induction s) (auto split: list.splits)

lemma split_on_no_sep: "sep \<notin> set h \<Longrightarrow> split_on sep h = [h]"
  by (induction h) auto

lemma split_on_first:
  "sep \<notin> set h \<Longrightarrow> split_on sep (h @ sep # rest) = h # split_on sep rest"
  by (induction h) auto

lemma hd_split_on: "hd (split_on sep s) = takeWhile (\<lambda>c. c \<noteq> sep) s"
  by (induction s) (auto split: list.splits simp add: split_on_nonempty)

lemma lazy_until_semicolon_run:
  "\<forall>c\<in>set m. c \<noteq> 59 \<and> \<not> line_terminator c \<Longrightarrow>
   lazy_until_semicolon (m @ 59 # r) = Some m"
  by (induction m) auto

text \<open>The matcher finds a match exactly when the regular expression has one.\<close>

lemma lazy_until_semicolon_complete:
  "list_all (\<lambda>c. \<not> line_terminator c) m \<Longrightarrow> lazy_until_semicolon (m @ 59 # post) \<noteq> None"
  by (induction m) auto

lemma lazy_until_semicolon_sound:
  "lazy_until_semicolon cs = Some g \<Longrightarrow>
   \<exists>post. cs = g @ 59 # post \<and> list_all (\<lambda>c. \<not> line_terminator c) g"
proof (induction cs arbitrary: g)
  case Nil
  then show ?case by simp
next
  case (Cons c cs)
  show ?case
  proof (cases "c = 59")
    case True
    then show ?thesis using Cons.prems by auto
  next
    case False
    then obtain g' where g': "lazy_until_semicolon cs = Some g'" "g = c # g'"
      and nl: "\<not> line_terminator c"
      using Cons.prems by (auto split: if_splits)
    from Cons.IH [OF g'(1)] obtain post where
      "cs = g' @ 59 # post" "list_all (\<lambda>c. \<not> line_terminator c) g'"
      by blast
    then show ?thesis using g'(2) nl by auto
  qed
qed

lemma match_mime_complete:
  "list_all (\<lambda>c. \<not> line_terminator c) m \<Longrightarrow> match_mime (pre @ 58 # m @ 59 # post) \<noteq> None"
proof (induction pre)
  case Nil
  then show ?case
    using lazy_until_semicolon_complete [of m post] by (auto split: option.splits)
next
  case (Cons c pre)
  then show ?case by (auto split: option.splits)
qed

lemma match_mime_sound:
  "match_mime s = Some g \<Longrightarrow>
   \<exists>pre post. s = pre @ 58 # g @ 59 # post \<and> list_all (\<lambda>c. \<not> line_terminator c) g"
proof (induction s)
  case Nil
  then show ?case by simp
next
  case (Cons c s)
  show ?case
  proof (cases "c = 58 \<and> lazy_until_semicolon s \<noteq> None")
    case True
    then have "lazy_until_semicolon s = Some g"
      using Cons.prems by auto
    from lazy_until_semicolon_sound [OF this] obtain post where
      "s = g @ 59 # post" "list_all (\<lambda>c. \<not> line_terminator c) g"
      by blast
    then have "c # s = [] @ 58 # g @ 59 # post \<and> list_all (\<lambda>c. \<not> line_terminator c) g"
      using True by simp
    then show ?thesis by blast
  next
    case False
    then have "match_mime s = Some g"
      using Cons.prems by (auto split: if_splits option.splits)
    from Cons.IH [OF this] obtain pre post where
      "s = pre @ 58 # g @ 59 # post" "list_all (\<lambda>c. \<not> line_terminator c) g"
      by blast
    then have "c # s = (c # pre) @ 58 # g @ 59 # post \<and>
        list_all (\<lambda>c. \<not> line_terminator c) g"
      by simp
    then show ?thesis by blast
  qed
qed

lemma has_mime_header_iff: "has_mime_header h = (match_mime h \<noteq> None)"
proof
  assume "has_mime_header h"
  then show "match_mime h \<noteq> None"
    unfolding has_mime_header_def using match_mime_complete by blast
next
  assume "match_mime h \<noteq> None"
  then obtain g where "match_mime h = Some g" by blast
  from match_mime_sound [OF this] show "has_mime_header h"
    unfolding has_mime_header_def by blast
qed

lemma ascii_data: "ascii ''data:'' = [100, 97, 116, 97, 58]"
  by (simp add: ascii_def)

lemma ascii_base64: "ascii '';base64,'' = [59, 98, 97, 115, 101, 54, 52, 44]"
  by (simp add: ascii_def)

lemma match_mime_data_url:
  "\<forall>c\<in>set mime. c \<noteq> 59 \<and> \<not> line_terminator c \<Longrightarrow>
   match_mime (ascii ''data:'' @ mime @ 59 # r) = Some mime"
  by (simp add: ascii_data lazy_until_semicolon_run)

lemma fill_bytes_take:
  "n \<le> length bstr \<Longrightarrow> length u8arr = length bstr \<Longrightarrow>
   fill_bytes n bstr u8arr = map of_nat (take n bstr) @ drop n u8arr"
proof (induction n arbitrary: u8arr)
  case 0
  then show ?case by simp
next
  case (Suc n)
  then have "fill_bytes (Suc n) bstr u8arr =
      map of_nat (take n bstr) @ drop n (u8arr[n := of_nat (bstr ! n)])"
    by simp
  also have "drop n (u8arr[n := of_nat (bstr ! n)]) = of_nat (bstr ! n) # drop (Suc n) u8arr"
    using Suc.prems by (simp add: Cons_nth_drop_Suc [symmetric] upd_conv_take_nth_drop)
  finally show ?case
    using Suc.prems by (simp add: take_Suc_conv_app_nth)
qed

lemma fill_bytes_all:
  "fill_bytes (length bstr) bstr (replicate (length bstr) 0) = map of_nat bstr"
  by (simp add: fill_bytes_take)

lemma unat_bytes:
  "\<forall>c\<in>set bstr. c < 256 \<Longrightarrow> map unat (map of_nat bstr :: 8 word list) = bstr"
  by (induction bstr) (simp_all add: unat_of_nat)

lemma File_type_lower_case:
  "list_all (\<lambda>c. 32 \<le> c \<and> c \<le> 126 \<and> \<not> (65 \<le> c \<and> c \<le> 90)) t \<Longrightarrow> File_type t = t"
proof -
  assume a: "list_all (\<lambda>c. 32 \<le> c \<and> c \<le> 126 \<and> \<not> (65 \<le> c \<and> c \<le> 90)) t"
  then have "list_all (\<lambda>c. 32 \<le> c \<and> c \<le> 126) t"
    by (induction t) auto
  moreover have "map ascii_lowercase t = t"
    using a by (induction t) (auto simp add: ascii_lowercase_def)
  ultimately show ?thesis by (simp add: File_type_def)
qed

lemma dataURLtoFile_no_match:
  "match_mime (hd (split_on 44 dataurl)) = None \<Longrightarrow>
   dataURLtoFile e dataurl filename = Inl (Error_value (read_message ''null'' ''1''))"
  using split_on_nonempty [of 44 dataurl]
  by (cases "split_on 44 dataurl") (simp_all add: dataURLtoFile_def)

lemma dataURLtoFile_no_header:
  "\<not> has_mime_header (header_of dataurl) \<Longrightarrow>
   dataURLtoFile e dataurl filename = Inl (Error_value (read_message ''null'' ''1''))"
  by (rule dataURLtoFile_no_match) (simp add: has_mime_header_iff header_of_def hd_split_on)

lemma dataURLtoFile_well_formed:
  assumes "dataurl = ascii ''data:'' @ mime @ params @ ascii '';base64,'' @ payload"
    and "\<forall>c\<in>set mime. c \<noteq> 59 \<and> c \<noteq> 44 \<and> \<not> line_terminator c"
    and "params = [] \<or> hd params = 59" and "44 \<notin> set params"
    and "44 \<notin> set payload"
    and "atob e payload = Inr bstr"
  shows "dataURLtoFile e dataurl filename =
           Inr \<lparr>file_bits = map of_nat bstr, file_name = filename,
                file_type = File_type mime\<rparr>"
proof -
  let ?r = "params @ [59, 98, 97, 115, 101, 54, 52]"
  let ?h = "ascii ''data:'' @ mime @ ?r"
  have d: "dataurl = ?h @ 44 # payload"
    using assms(1) by (simp add: ascii_base64)
  have "44 \<notin> set ?h"
    using assms(2,4) by (auto simp add: ascii_data)
  then have "split_on 44 dataurl = ?h # split_on 44 payload"
    unfolding d by (rule split_on_first)
  then have s: "split_on 44 dataurl = [?h, payload]"
    using assms(5) by (simp add: split_on_no_sep)
  obtain r' where r': "?r = 59 # r'"
    using assms(3) by (cases params) auto
  have m: "match_mime ?h = Some mime"
    unfolding r' by (rule match_mime_data_url) (use assms(2) in auto)
  show ?thesis
    using s m assms(6) by (simp add: dataURLtoFile_def fill_bytes_all Let_def)
qed

text \<open>
  Claim C10, as amended. dataURLtoFile is partial: for every string whose header (the
  part before the first comma) has no match of \<open>/:(.*?);/\<close> it throws the TypeError of
  reading the group of a null match. For every base64 data URL
  \<open>data:<mime><parameters>;base64,<payload>\<close> whose payload \<open>atob\<close> decodes, it returns a
  File whose bytes are the decoded payload in order, with the given name, and whose type
  is the extracted MIME type as the File constructor keeps it: in ASCII lower case, and
  empty if it has a code unit outside U+0020 to U+007E; so it is the extracted type itself
  when that is printable ASCII without upper-case letters.
\<close>

theorem dataURLtoFile_partial_and_correct:
  "(\<not> has_mime_header (header_of dataurl) \<longrightarrow>
      dataURLtoFile e dataurl filename = Inl (Error_value (read_message ''null'' ''1''))) \<and>
   (dataurl = ascii ''data:'' @ mime @ params @ ascii '';base64,'' @ payload \<and>
    (\<forall>c\<in>set mime. c \<noteq> 59 \<and> c \<noteq> 44 \<and> \<not> line_terminator c) \<and>
    (params = [] \<or> hd params = 59) \<and> 44 \<notin> set params \<and>
    44 \<notin> set payload \<and> atob e payload = Inr bstr \<and> (\<forall>c\<in>set bstr. c < 256) \<longrightarrow>
      (\<exists>f. dataURLtoFile e dataurl filename = Inr f \<and> map unat (file_bits f) = bstr \<and>
           file_name f = filename \<and> file_type f = File_type mime \<and>
           (list_all (\<lambda>c. 32 \<le> c \<and> c \<le> 126 \<and> \<not> (65 \<le> c \<and> c \<le> 90)) mime \<longrightarrow>
              file_type f = mime)))"
proof (intro conjI impI)
  assume "\<not> has_mime_header (header_of dataurl)"
  then show "dataURLtoFile e dataurl filename = Inl (Error_value (read_message ''null'' ''1''))"
    by (rule dataURLtoFile_no_header)
next
  assume a: "dataurl = ascii ''data:'' @ mime @ params @ ascii '';base64,'' @ payload \<and>
    (\<forall>c\<in>set mime. c \<noteq> 59 \<and> c \<noteq> 44 \<and> \<not> line_terminator c) \<and>
    (params = [] \<or> hd params = 59) \<and> 44 \<notin> set params \<and>
    44 \<notin> set payload \<and> atob e payload = Inr bstr \<and> (\<forall>c\<in>set bstr. c < 256)"
  from a have a1: "dataurl = ascii ''data:'' @ mime @ params @ ascii '';base64,'' @ payload"
    and a2: "\<forall>c\<in>set mime. c \<noteq> 59 \<and> c \<noteq> 44 \<and> \<not> line_terminator c"
    and a3: "params = [] \<or> hd params = 59" and a4: "44 \<notin> set params"
    and a5: "44 \<notin> set payload" and a6: "atob e payload = Inr bstr"
    and a7: "\<forall>c\<in>set bstr. c < 256"
    by blast+
  have "dataURLtoFile e dataurl filename =
      Inr \<lparr>file_bits = map of_nat bstr, file_name = filename, file_type = File_type mime\<rparr>"
    using a1 a2 a3 a4 a5 a6 by (rule dataURLtoFile_well_formed)
  moreover have "map unat (map of_nat bstr :: 8 word list) = bstr"
    using a7 by (rule unat_bytes)
  ultimately show "\<exists>f. dataURLtoFile e dataurl filename = Inr f \<and>
      map unat (file_bits f) = bstr \<and> file_name f = filename \<and>
      file_type f = File_type mime \<and>
      (list_all (\<lambda>c. 32 \<le> c \<and> c \<le> 126 \<and> \<not> (65 \<le> c \<and> c \<le> 90)) mime \<longrightarrow>
         file_type f = mime)"
    by (simp add: File_type_lower_case)
qed

theorem dataURLtoFile_witness:
  "\<not> has_mime_header (header_of (ascii ''no header; here'')) \<and>
   dataURLtoFile offline_env (ascii ''no header; here'') (ascii ''capture.jpg'') =
     Inl (Error_value (read_message ''null'' ''1'')) \<and>
   (\<exists>f. dataURLtoFile offline_env (ascii ''data:text/plain;charset=utf-8;base64,SGk='')
          (ascii ''capture.jpg'') = Inr f \<and>
        map unat (file_bits f) = [72, 105] \<and> file_name f = ascii ''capture.jpg'' \<and>
        file_type f = ascii ''text/plain'')"
proof -
  have 1: "\<not> has_mime_header (header_of (ascii ''no header; here''))"
    by (simp add: has_mime_header_iff header_of_def ascii_def)
  have 2: "ascii ''data:text/plain;charset=utf-8;base64,SGk='' =
      ascii ''data:'' @ ascii ''text/plain'' @ ascii '';charset=utf-8'' @ ascii '';base64,'' @
      ascii ''SGk='' \<and>
    (\<forall>c\<in>set (ascii ''text/plain''). c \<noteq> 59 \<and> c \<noteq> 44 \<and> \<not> line_terminator c) \<and>
    (ascii '';charset=utf-8'' = [] \<or> hd (ascii '';charset=utf-8'') = 59) \<and>
    44 \<notin> set (ascii '';charset=utf-8'') \<and>
    44 \<notin> set (ascii ''SGk='') \<and> atob offline_env (ascii ''SGk='') = Inr [72, 105] \<and>
    (\<forall>c\<in>set [72, 105::nat]. c < 256)"
    by (simp add: ascii_def line_terminator_def offline_env_def host_def stub_atob_def)
  have 3: "list_all (\<lambda>c. 32 \<le> c \<and> c \<le> 126 \<and> \<not> (65 \<le> c \<and> c \<le> 90)) (ascii ''text/plain'')"
    by (simp add: ascii_def)
  have "\<not> has_mime_header (header_of (ascii ''no header; here'')) \<longrightarrow>
      dataURLtoFile offline_env (ascii ''no header; here'') (ascii ''capture.jpg'') =
        Inl (Error_value (read_message ''null'' ''1''))"
    using dataURLtoFile_partial_and_correct [of "ascii ''no header; here''" offline_env
        "ascii ''capture.jpg''" "[]" "[]" "[]" "[]"]
    by (rule conjunct1)
  then have a: "dataURLtoFile offline_env (ascii ''no header; here'') (ascii ''capture.jpg'') =
        Inl (Error_value (read_message ''null'' ''1''))"
    using 1 by (rule mp)
  have "\<exists>f. dataURLtoFile offline_env (ascii ''data:text/plain;charset=utf-8;base64,SGk='')
          (ascii ''capture.jpg'') = Inr f \<and>
        map unat (file_bits f) = [72, 105] \<and> file_name f = ascii ''capture.jpg'' \<and>
        file_type f = File_type (ascii ''text/plain'') \<and>
        (list_all (\<lambda>c. 32 \<le> c \<and> c \<le> 126 \<and> \<not> (65 \<le> c \<and> c \<le> 90)) (ascii ''text/plain'') \<longrightarrow>
           file_type f = ascii ''text/plain'')"
    using dataURLtoFile_partial_and_correct [of "ascii ''data:text/plain;charset=utf-8;base64,SGk=''"
        offline_env "ascii ''capture.jpg''" "ascii ''text/plain''" "ascii '';charset=utf-8''"
        "ascii ''SGk=''" "[72, 105]", THEN conjunct2, THEN mp, OF 2] .
  then obtain f where f:
    "dataURLtoFile offline_env (ascii ''data:text/plain;charset=utf-8;base64,SGk='')
          (ascii ''capture.jpg'') = Inr f \<and>
        map unat (file_bits f) = [72, 105] \<and> file_name f = ascii ''capture.jpg'' \<and>
        file_type f = File_type (ascii ''text/plain'') \<and>
        (list_all (\<lambda>c. 32 \<le> c \<and> c \<le> 126 \<and> \<not> (65 \<le> c \<and> c \<le> 90)) (ascii ''text/plain'') \<longrightarrow>
           file_type f = ascii ''text/plain'')" ..
  from f 3 have "file_type f = ascii ''text/plain''"
    by (elim conjE impE)
  with f have g: "dataURLtoFile offline_env (ascii ''data:text/plain;charset=utf-8;base64,SGk='')
          (ascii ''capture.jpg'') = Inr f \<and>
        map unat (file_bits f) = [72, 105] \<and> file_name f = ascii ''capture.jpg'' \<and>
        file_type f = ascii ''text/plain''"
    by (elim conjE) (intro conjI)
  have b: "\<exists>f. dataURLtoFile offline_env (ascii ''data:text/plain;charset=utf-8;base64,SGk='')
          (ascii ''capture.jpg'') = Inr f \<and>
        map unat (file_bits f) = [72, 105] \<and> file_name f = ascii ''capture.jpg'' \<and>
        file_type f = ascii ''text/plain''"
    by (rule exI [where x = f]) (rule g)
  show ?thesis
    using 1 a b by (intro conjI)
qed

text \<open>
  Claim C10 as stated fails: for a data URL whose MIME type is written in upper case, the
  type of the File is not the extracted MIME type but its lower-case form.
\<close>

theorem dataURLtoFile_upper_case_type_counterexample:
  "match_mime (header_of (ascii ''data:IMAGE/JPEG;base64,SGk='')) = Some (ascii ''IMAGE/JPEG'') \<and>
   dataURLtoFile offline_env (ascii ''data:IMAGE/JPEG;base64,SGk='') (ascii ''capture.jpg'') =
     Inr \<lparr>file_bits = [72, 105], file_name = ascii ''capture.jpg'',
          file_type = ascii ''image/jpeg''\<rparr> \<and>
   ascii ''image/jpeg'' \<noteq> ascii ''IMAGE/JPEG''"
  by (simp add: dataURLtoFile_def header_of_def ascii_def line_terminator_def offline_env_def
      host_def stub_atob_def File_type_def ascii_lowercase_def)


subsection \<open>The dashboard\<close>

lemma history_updater_length: "length (history_updater d prev) = min 10 (Suc (length prev))"
  by (simp add: history_updater_def min_def)

lemma detectProduct_on_success:
  assumes "dataURLtoFile e imageData (ascii ''capture.jpg'') = Inr f"
    and "fst (analyzeImage e f sent) = Inr result" and "success result"
  shows "fst (detectProduct e imageData (st, sent)) =
     st\<lparr>isDetecting := False, dashboardError := None, detectionResult := data result,
        detectionHistory := history_updater (data result) (detectionHistory st)\<rparr>"
  using assms
  by (cases "analyzeImage e f sent") (simp add: detectProduct_def detectProduct_try_def Let_def)

lemma sample_file_decoded:
  "dataURLtoFile (host network) sample_image (ascii ''capture.jpg'') = Inr sample_file"
  by (simp add: dataURLtoFile_def sample_image_def sample_file_def host_def stub_atob_def
      ascii_def line_terminator_def File_type_def ascii_lowercase_def)

lemma online_result:
  "fst (analyzeImage online_env sample_file []) =
     Inr \<lparr>success = True, data = sample_detection, error = Undefined\<rparr>"
  by (simp add: analyzeImage_settle settle_def online_env_def host_def handleResponse_def
      handleResponse_try_def ok_def)

text \<open>
  Claim C1. For every history list and every result received, the update of detectProduct
  puts the new result at the front, followed by the first nine previous entries in their
  order; nothing else is dropped (no deduplication), so the length is the smaller of 10
  and the previous length plus one, and never exceeds 10.
\<close>

theorem detectProduct_history_bounded:
  assumes "dataURLtoFile e imageData (ascii ''capture.jpg'') = Inr f"
    and "fst (analyzeImage e f sent) = Inr result" and "success result"
  shows "detectionHistory (fst (detectProduct e imageData (st, sent))) =
           data result # take 9 (detectionHistory st) \<and>
         length (detectionHistory (fst (detectProduct e imageData (st, sent)))) =
           min 10 (Suc (length (detectionHistory st))) \<and>
         length (detectionHistory (fst (detectProduct e imageData (st, sent)))) \<le> 10"
  using history_updater_length [of "data result" "detectionHistory st"]
  by (simp add: detectProduct_on_success [OF assms]) (simp add: history_updater_def)

theorem detectProduct_history_witness:
  "dataURLtoFile online_env sample_image (ascii ''capture.jpg'') = Inr sample_file \<and>
   fst (analyzeImage online_env sample_file []) =
     Inr \<lparr>success = True, data = sample_detection, error = Undefined\<rparr> \<and>
   detectionHistory (fst (detectProduct online_env sample_image (sample_dashboard, []))) =
     [sample_detection, Str ''r10'', Str ''r9'', Str ''r8'', Str ''r7'', Str ''r6'',
      Str ''r5'', Str ''r4'', Str ''r3'', Str ''r2''] \<and>
   length (detectionHistory (fst (detectProduct online_env sample_image (sample_dashboard, [])))) = 10"
proof -
  have 1: "dataURLtoFile online_env sample_image (ascii ''capture.jpg'') = Inr sample_file"
    unfolding online_env_def by (rule sample_file_decoded)
  have 2: "success \<lparr>success = True, data = sample_detection, error = Undefined\<rparr>"
    by simp
  show ?thesis
    using 1 online_result detectProduct_history_bounded [OF 1 online_result 2, of sample_dashboard]
    by (simp add: sample_dashboard_def)
qed

lemma detectProduct_not_success:
  assumes "dataURLtoFile e imageData (ascii ''capture.jpg'') = Inr f"
    and "fst (analyzeImage e f sent) = Inr result" and "\<not> success result"
  shows "fst (detectProduct e imageData (st, sent)) =
     st\<lparr>isDetecting := False,
        dashboardError := Some (catch_message ''Terjadi kesalahan saat deteksi''
           (new_Error e (js_or (error result) (Str ''Gagal melakukan deteksi produk''))))\<rparr>"
  using assms
  by (cases "analyzeImage e f sent") (simp add: detectProduct_def detectProduct_try_def)

lemma detectProduct_api_throws:
  assumes "dataURLtoFile e imageData (ascii ''capture.jpg'') = Inr f"
    and "fst (analyzeImage e f sent) = Inl err"
  shows "fst (detectProduct e imageData (st, sent)) =
     st\<lparr>isDetecting := False,
        dashboardError := Some (catch_message ''Terjadi kesalahan saat deteksi'' err)\<rparr>"
  using assms
  by (cases "analyzeImage e f sent") (simp add: detectProduct_def detectProduct_try_def)

lemma detectProduct_sent:
  assumes "dataURLtoFile e imageData (ascii ''capture.jpg'') = Inr f"
  shows "snd (detectProduct e imageData (st, sent)) = sent @ [analyze_request e (File_part f)]"
  using assms
  by (simp add: detectProduct_def detectProduct_try_def analyzeImage_settle Let_def
      split: sum.splits)

lemma detectProduct_bad_image:
  assumes "dataURLtoFile e imageData (ascii ''capture.jpg'') = Inl err"
  shows "detectProduct e imageData (st, sent) =
     (st\<lparr>isDetecting := False,
         dashboardError := Some (catch_message ''Terjadi kesalahan saat deteksi'' err)\<rparr>, sent)"
  using assms by (simp add: detectProduct_def detectProduct_try_def)

lemma unavailable_result:
  "fst (analyzeImage unavailable_env sample_file []) =
     Inr \<lparr>success = False, data = Undefined, error = Str ''Model belum siap''\<rparr>"
  by (simp add: analyzeImage_settle settle_def unavailable_env_def host_def handleResponse_def
      handleResponse_try_def ok_def js_or_def)

text \<open>
  What detectProduct does when the API call does not return a success result (it returns
  a failure, or throws): detectionResult and detectionHistory are unchanged, the message
  stored is the message of the Error made from the error of the result, or from the
  default text when the result has no error (the message of the thrown error, or the
  default text of the catch block, after a throw), the banner shows it when it is not
  empty, and exactly one request has been sent.
\<close>

lemma detectProduct_failure_state:
  assumes "dataURLtoFile e imageData (ascii ''capture.jpg'') = Inr f"
    and "fst (analyzeImage e f sent) = outcome"
    and "\<forall>result. outcome = Inr result \<longrightarrow> \<not> success result"
  shows "detectionResult (fst (detectProduct e imageData (st, sent))) = detectionResult st \<and>
         detectionHistory (fst (detectProduct e imageData (st, sent))) = detectionHistory st \<and>
         \<not> isDetecting (fst (detectProduct e imageData (st, sent))) \<and>
         (\<exists>m. dashboardError (fst (detectProduct e imageData (st, sent))) = Some m \<and>
              error_banner (fst (detectProduct e imageData (st, sent))) =
                (if m = [] then None else Some m) \<and>
              (\<forall>result. outcome = Inr result \<longrightarrow>
                 m = catch_message ''Terjadi kesalahan saat deteksi''
                       (new_Error e (js_or (error result)
                          (Str ''Gagal melakukan deteksi produk'')))) \<and>
              (\<forall>result s. outcome = Inr result \<and> error result = Str s \<and> s \<noteq> [] \<longrightarrow>
                 m = s \<and> error_banner (fst (detectProduct e imageData (st, sent))) = Some s) \<and>
              (\<forall>result. outcome = Inr result \<and> \<not> truthy (error result) \<longrightarrow>
                 m = ''Gagal melakukan deteksi produk'') \<and>
              (\<forall>msg. outcome = Inl (Error_value msg) \<longrightarrow> m = msg) \<and>
              (outcome = Inl Other_value \<longrightarrow> m = ''Terjadi kesalahan saat deteksi'')) \<and>
         snd (detectProduct e imageData (st, sent)) = sent @ [analyze_request e (File_part f)]"
proof (cases outcome)
  case (Inl err)
  then show ?thesis
    using assms(1,2)
    by (simp add: detectProduct_api_throws [OF assms(1)] detectProduct_sent [OF assms(1)]
        catch_message_def error_banner_def)
next
  case (Inr result)
  then have "\<not> success result" using assms(3) by simp
  then show ?thesis
    using assms(1,2) Inr
    by (simp add: detectProduct_not_success [OF assms(1)] detectProduct_sent [OF assms(1)]
        catch_message_def new_Error_def js_or_def error_banner_def)
qed

lemma detectProduct_unavailable_example:
  "dataURLtoFile unavailable_env sample_image (ascii ''capture.jpg'') = Inr sample_file \<and>
   fst (analyzeImage unavailable_env sample_file []) =
     Inr \<lparr>success = False, data = Undefined, error = Str ''Model belum siap''\<rparr> \<and>
   detectionResult (fst (detectProduct unavailable_env sample_image (sample_dashboard, []))) =
     detectionResult sample_dashboard \<and>
   detectionHistory (fst (detectProduct unavailable_env sample_image (sample_dashboard, []))) =
     detectionHistory sample_dashboard \<and>
   dashboardError (fst (detectProduct unavailable_env sample_image (sample_dashboard, []))) =
     Some ''Model belum siap'' \<and>
   error_banner (fst (detectProduct unavailable_env sample_image (sample_dashboard, []))) =
     Some ''Model belum siap'' \<and>
   snd (detectProduct unavailable_env sample_image (sample_dashboard, [])) =
     [analyze_request unavailable_env (File_part sample_file)]"
proof -
  have 1: "dataURLtoFile unavailable_env sample_image (ascii ''capture.jpg'') = Inr sample_file"
    unfolding unavailable_env_def by (rule sample_file_decoded)
  have 3: "\<forall>result. (Inr \<lparr>success = False, data = Undefined, error = Str ''Model belum siap''\<rparr>
       :: thrown + api_response) = Inr result \<longrightarrow> \<not> success result"
    by auto
  show ?thesis
    using 1 unavailable_result
      detectProduct_failure_state [OF 1 unavailable_result 3, of sample_dashboard]
    by auto
qed

lemma empty_detail_result:
  "fst (analyzeImage empty_detail_env sample_file []) =
     Inr \<lparr>success = False, data = Undefined, error = Arr []\<rparr>"
  by (simp add: analyzeImage_settle settle_def empty_detail_env_def host_def handleResponse_def
      handleResponse_try_def ok_def js_or_def)

text \<open>
  Claim C4 fails on the code at an error body whose \<open>detail\<close> is the empty array. The
  client returns the array as the error of the result (a \<open>detail\<close> that is not a
  string is passed on as it is, against the declared type of the error), the array is truthy, so
  \<open>new Error\<close> gets it and its message is the empty string; detectProduct stores that, and
  the banner \<open>{error && ...}\<close> shows nothing. The rest of the claim holds there:
  detectionResult and detectionHistory are unchanged and one request is sent.
\<close>

theorem detectProduct_empty_detail_no_banner:
  "dataURLtoFile empty_detail_env sample_image (ascii ''capture.jpg'') = Inr sample_file \<and>
   fst (analyzeImage empty_detail_env sample_file []) =
     Inr \<lparr>success = False, data = Undefined, error = Arr []\<rparr> \<and>
   dashboardError (fst (detectProduct empty_detail_env sample_image (sample_dashboard, []))) =
     Some [] \<and>
   error_banner (fst (detectProduct empty_detail_env sample_image (sample_dashboard, []))) =
     None \<and>
   detectionResult (fst (detectProduct empty_detail_env sample_image (sample_dashboard, []))) =
     detectionResult sample_dashboard \<and>
   detectionHistory (fst (detectProduct empty_detail_env sample_image (sample_dashboard, []))) =
     detectionHistory sample_dashboard \<and>
   snd (detectProduct empty_detail_env sample_image (sample_dashboard, [])) =
     [analyze_request empty_detail_env (File_part sample_file)]"
proof -
  have 1: "dataURLtoFile empty_detail_env sample_image (ascii ''capture.jpg'') = Inr sample_file"
    unfolding empty_detail_env_def by (rule sample_file_decoded)
  have 2: "\<not> success \<lparr>success = False, data = Undefined, error = Arr []\<rparr>"
    by simp
  have 3: "new_Error empty_detail_env
      (js_or (Arr []) (Str ''Gagal melakukan deteksi produk'')) = Error_value []"
    by (simp add: new_Error_def js_or_def)
  show ?thesis
    using 1 empty_detail_result
    by (simp add: detectProduct_not_success [OF 1 empty_detail_result 2] 3
        detectProduct_sent [OF 1] catch_message_def error_banner_def)
qed


subsection \<open>System status polling\<close>

lemma fetchSystemStatus_sent:
  "snd (fetchSystemStatus e (st, sent)) =
     sent @ [get_request e ''/health'', get_request e ''/model/info'',
             get_request e ''/brands/database'']"
  by (simp add: fetchSystemStatus_def fetchSystemStatus_try_def healthCheck_settle
      getModelInfo_settle getBrandsDatabase_settle Let_def split: sum.splits prod.splits)

lemma fetchSystemStatus_brands_failed:
  assumes "settle (fetch e (get_request e ''/brands/database'')) = Inr b" and "\<not> success b"
  shows "statusError (fst (fetchSystemStatus e (st, sent))) = None \<and>
         brandsCount (fst (fetchSystemStatus e (st, sent))) = brandsCount st"
proof -
  obtain h where h: "settle (fetch e (get_request e ''/health'')) = Inr h"
    using settle_total by blast
  obtain m where m: "settle (fetch e (get_request e ''/model/info'')) = Inr m"
    using settle_total by blast
  show ?thesis
    using assms h m
    by (simp add: fetchSystemStatus_def fetchSystemStatus_try_def healthCheck_settle
        getModelInfo_settle getBrandsDatabase_settle Let_def)
qed

text \<open>
  Claim C5 fails on the code when the endpoints fail: with the network down, every
  execution of fetchSystemStatus sends its three requests once, leaves the error state
  null and the other states as they were, and the component renders the status panel,
  not the error panel.
\<close>

theorem fetchSystemStatus_offline_unreported:
  "fetchSystemStatus offline_env (st, sent) =
     (st\<lparr>isLoading := False, statusError := None\<rparr>,
      sent @ [get_request offline_env ''/health'', get_request offline_env ''/model/info'',
              get_request offline_env ''/brands/database'']) \<and>
   SystemStatus_view (fst (fetchSystemStatus offline_env (st, sent))) = Status_view"
  by (simp add: fetchSystemStatus_def fetchSystemStatus_try_def healthCheck_settle
      getModelInfo_settle getBrandsDatabase_settle Let_def settle_def offline_env_def host_def
      network_failure_def SystemStatus_view_def)


subsection \<open>The rendered views\<close>

lemma feature_labels:
  "feature_label ''barcode_729'' = ''Barcode 729''"
  "feature_label ''made_in_israel_text'' = ''Made In Israel Text''"
  "feature_label ''hebrew_text'' = ''Hebrew Text''"
  "feature_label ''israeli_brand'' = ''Israeli Brand''"
  "feature_label ''kosher_certification'' = ''Kosher Certification''"
  by (simp_all add: feature_label_def underscores_to_spaces_def word_char_def upper_char_def)

lemma texts_el: "texts (el tag cls children) = concat (map texts children)"
  by (simp add: el_def)

lemma texts_icon: "texts (icon c cls) = []"
  by (simp add: icon_def texts_el)

lemma texts_feature_row:
  "texts (feature_row (key, v)) =
     [Text (feature_label key), Text (if v then ''Terdeteksi'' else ''Tidak Ada'')]"
  by (simp add: feature_row_def texts_el texts_icon)

lemma texts_brand_block:
  "texts (brand_block b) =
     [Text ''Informasi Brand'', Text ''Nama:'', Text (name b), Text ''Kategori:'',
      Text (underscores_to_spaces (category b)), Text ''Risk Level:'',
      Text (risk_level_upper (risk_level b))]"
  by (simp add: brand_block_def texts_el texts_icon)

lemma texts_DetectionResultCard:
  "texts (DetectionResultCard result onDownload) =
     [Text (if is_israeli_product result then ''Produk Terafiliasi Israel'' else ''Produk Aman''),
      Text ''Confidence: '', Percent_fixed1 (Finite (confidence result)), Text ''%'',
      Text ''Tingkat Keyakinan'', Percent_fixed1 (Finite (confidence result)), Text ''%'',
      Text ''Fitur yang Terdeteksi'',
      Text ''Barcode 729'',
      Text (if barcode_729 (detected_features result) then ''Terdeteksi'' else ''Tidak Ada''),
      Text ''Made In Israel Text'',
      Text (if made_in_israel_text (detected_features result) then ''Terdeteksi'' else ''Tidak Ada''),
      Text ''Hebrew Text'',
      Text (if hebrew_text (detected_features result) then ''Terdeteksi'' else ''Tidak Ada''),
      Text ''Israeli Brand'',
      Text (if israeli_brand (detected_features result) then ''Terdeteksi'' else ''Tidak Ada''),
      Text ''Kosher Certification'',
      Text (if kosher_certification (detected_features result) then ''Terdeteksi'' else ''Tidak Ada'')] @
     (case brand_info result of None \<Rightarrow> [] | Some b \<Rightarrow> texts (brand_block b)) @
     [Text ''Waktu Deteksi: '', Local_date_time (timestamp result)] @
     processing_texts (processing_time_ms result)"
  by (simp add: DetectionResultCard_def Let_def texts_el texts_icon texts_feature_row
      feature_entries_def feature_labels formatConfidence_def formatTimestamp_def
      processing_texts_def split: option.splits)

lemma processing_texts_no_label:
  "Text ''Informasi Brand'' \<notin> set (processing_texts p)"
  "Text ''Nama:'' \<notin> set (processing_texts p)"
  "Text ''Kategori:'' \<notin> set (processing_texts p)"
  "Text ''Risk Level:'' \<notin> set (processing_texts p)"
  by (simp_all add: processing_texts_def split: option.splits)

text \<open>
  Claim C6. For every DetectionResult whose \<open>brand_info\<close> is absent, the card renders
  none of the brand fields: the heading of the block and the labels of the name, the
  category and the risk level do not occur in its text. The block appears exactly when
  \<open>brand_info\<close> is present, and then shows the name, the category and the risk level.
\<close>

theorem DetectionResultCard_brand_fields:
  "(brand_info result = None \<longrightarrow>
      Text ''Informasi Brand'' \<notin> set (texts (DetectionResultCard result onDownload)) \<and>
      Text ''Nama:'' \<notin> set (texts (DetectionResultCard result onDownload)) \<and>
      Text ''Kategori:'' \<notin> set (texts (DetectionResultCard result onDownload)) \<and>
      Text ''Risk Level:'' \<notin> set (texts (DetectionResultCard result onDownload))) \<and>
   (Text ''Informasi Brand'' \<in> set (texts (DetectionResultCard result onDownload))) =
      (brand_info result \<noteq> None) \<and>
   (\<forall>b. brand_info result = Some b \<longrightarrow>
      (\<exists>before after. texts (DetectionResultCard result onDownload) =
         before @
         [Text ''Informasi Brand'', Text ''Nama:'', Text (name b), Text ''Kategori:'',
          Text (underscores_to_spaces (category b)), Text ''Risk Level:'',
          Text (risk_level_upper (risk_level b))] @ after))"
proof (intro conjI impI allI)
  assume n: "brand_info result = None"
  show "Text ''Informasi Brand'' \<notin> set (texts (DetectionResultCard result onDownload))"
    "Text ''Nama:'' \<notin> set (texts (DetectionResultCard result onDownload))"
    "Text ''Kategori:'' \<notin> set (texts (DetectionResultCard result onDownload))"
    "Text ''Risk Level:'' \<notin> set (texts (DetectionResultCard result onDownload))"
    using n by (simp_all add: texts_DetectionResultCard processing_texts_no_label)
next
  show "(Text ''Informasi Brand'' \<in> set (texts (DetectionResultCard result onDownload))) =
      (brand_info result \<noteq> None)"
    by (cases "brand_info result")
      (simp_all add: texts_DetectionResultCard processing_texts_no_label texts_brand_block)
next
  fix b
  assume "brand_info result = Some b"
  then show "\<exists>before after. texts (DetectionResultCard result onDownload) =
         before @
         [Text ''Informasi Brand'', Text ''Nama:'', Text (name b), Text ''Kategori:'',
          Text (underscores_to_spaces (category b)), Text ''Risk Level:'',
          Text (risk_level_upper (risk_level b))] @ after"
    unfolding texts_DetectionResultCard by (simp only: option.case texts_brand_block) blast
qed

theorem DetectionResultCard_brand_fields_witness:
  "brand_info plain_result = None \<and>
   Text ''Informasi Brand'' \<notin> set (texts (DetectionResultCard plain_result True)) \<and>
   Text ''Nama:'' \<notin> set (texts (DetectionResultCard plain_result True)) \<and>
   Text ''Kategori:'' \<notin> set (texts (DetectionResultCard plain_result True)) \<and>
   Text ''Risk Level:'' \<notin> set (texts (DetectionResultCard plain_result True)) \<and>
   brand_info branded_result =
     Some \<lparr>name = ''Contoh'', category = ''personal_care'', risk_level = High\<rparr> \<and>
   Text ''Informasi Brand'' \<in> set (texts (DetectionResultCard branded_result True)) \<and>
   (\<exists>before after. texts (DetectionResultCard branded_result True) =
      before @
      [Text ''Informasi Brand'', Text ''Nama:'', Text ''Contoh'', Text ''Kategori:'',
       Text ''personal care'', Text ''Risk Level:'', Text ''HIGH''] @ after)"
proof -
  have 1: "brand_info plain_result = None"
    by (simp add: plain_result_def)
  have 2: "brand_info branded_result =
     Some \<lparr>name = ''Contoh'', category = ''personal_care'', risk_level = High\<rparr>"
    by (simp add: branded_result_def)
  have 3: "underscores_to_spaces ''personal_care'' = ''personal care''"
    by (simp add: underscores_to_spaces_def)
  show ?thesis
    using 1 2 3 DetectionResultCard_brand_fields [of plain_result True]
      DetectionResultCard_brand_fields [of branded_result True]
    by simp
qed








end
